theory Spec2Isabelle
  imports Complex_Main "HOL-Library.Char_ord" "HOL-Library.List_Lexorder" "HOL-Library.Multiset" "HOL-Library.Sublist"
begin

section \<open>Python strings and built-ins used by the tools\<close>

text \<open>
  A Python \<open>str\<close> is modelled as a \<open>string\<close> holding its UTF-8 bytes. Equality,
  concatenation, \<open>startswith\<close>, \<open>in\<close>, \<open>replace\<close> and \<open>split\<close> with ASCII
  patterns, and the code-point order used by \<open>sorted\<close> (byte order of UTF-8 is
  code-point order) are the same on both views. The icons of the reports are not ASCII and
  are written out as their bytes.
\<close>

definition ICON_OK :: string where
  "ICON_OK = [CHR 0xE2, CHR 0x9C, CHR 0x85]"

definition ICON_FAIL :: string where
  "ICON_FAIL = [CHR 0xE2, CHR 0x9D, CHR 0x8C]"

definition ICON_WARN :: string where
  "ICON_WARN = [CHR 0xE2, CHR 0x9A, CHR 0xA0, CHR 0xEF, CHR 0xB8, CHR 0x8F]"

definition ICON_UNKNOWN :: string where
  "ICON_UNKNOWN = [CHR 0xE2, CHR 0x9D, CHR 0x93]"

definition ICON_PROGRESS :: string where
  "ICON_PROGRESS = [CHR 0xF0, CHR 0x9F, CHR 0x94, CHR 0x84]"

definition ICON_QUEUED :: string where
  "ICON_QUEUED = [CHR 0xE2, CHR 0x8F, CHR 0xB3]"

text \<open>\<open>"=" * 70\<close> and \<open>"-" * 70\<close>.\<close>

definition rule_eq :: string where
  "rule_eq = replicate 70 (CHR ''='')"

definition rule_dash :: string where
  "rule_dash = replicate 70 (CHR ''-'')"

text \<open>\<open>str(n)\<close> on integers: decimal digits, a minus sign for negative values.\<close>

definition digit_char :: "nat \<Rightarrow> char" where
  "digit_char d = char_of (48 + d)"

function str_nat :: "nat \<Rightarrow> string" where
  "str_nat n = (if n < 10 then [digit_char n] else str_nat (n div 10) @ [digit_char (n mod 10)])"
  by pat_completeness auto
termination
  by (relation "measure (\<lambda>n. n)") auto

declare str_nat.simps [simp del]

definition str_int :: "int \<Rightarrow> string" where
  "str_int i = (if i < 0 then CHR ''-'' # str_nat (nat (- i)) else str_nat (nat i))"

text \<open>\<open>"\n".join(lines)\<close>.\<close>

fun join_lines :: "string list \<Rightarrow> string" where
  "join_lines [] = []"
| "join_lines [l] = l"
| "join_lines (l # ls) = l @ CHR 0x0A # join_lines ls"

section \<open>status.py: the combined checker\<close>

text \<open>
  The process state the combined tool acts on: the arguments of its \<open>print\<close> calls on
  standard output, the lines written to standard error, and the argument vectors of the
  subprocesses it has started, in order.
\<close>

record world =
  out :: "string list"
  err :: "string list"
  spawned :: "string list list"

definition world0 :: world where
  "world0 = \<lparr>out = [], err = [], spawned = []\<rparr>"

definition py_print :: "string \<Rightarrow> world \<Rightarrow> world" where
  "py_print s w = w\<lparr>out := out w @ [s]\<rparr>"

definition print_section_header :: "string \<Rightarrow> world \<Rightarrow> world" where
  "print_section_header title w =
     py_print rule_eq (py_print (''  '' @ title) (py_print rule_eq (py_print [CHR 0x0A] w)))"

text \<open>
  \<open>run_tool\<close>: \<open>subprocess.run\<close> is the environment, a function from the argument
  vector to the child's return code (\<open>Inr\<close>) or to the text of the exception raised
  while starting it (\<open>Inl\<close>), which the tool reports and turns into exit code 1.
\<close>

definition run_tool :: "(string list \<Rightarrow> string + int) \<Rightarrow> string \<Rightarrow> string list \<Rightarrow> world \<Rightarrow> int \<times> world" where
  "run_tool subprocess_run tool_path args w =
     (let argv = [''python3'', tool_path] @ args;
          w1 = w\<lparr>spawned := spawned w @ [argv]\<rparr>
      in case subprocess_run argv of
           Inr returncode \<Rightarrow> (returncode, w1)
         | Inl e \<Rightarrow> (1, w1\<lparr>err := err w1 @ [''Error running '' @ tool_path @ '': '' @ e]\<rparr>))"

record status_args =
  project :: string
  organization :: string
  ci_limit :: int
  skip_ci :: bool
  skip_sonarcloud :: bool

text \<open>
  The two steps of \<open>main\<close> that run the sub-checks. Each returns the list of exit codes
  collected so far. \<open>tool\<close> maps a file name to \<open>str(tools_dir / name)\<close>.
\<close>

definition check_ci :: "(string list \<Rightarrow> string + int) \<Rightarrow> (string \<Rightarrow> string) \<Rightarrow> status_args \<Rightarrow> int list \<times> world \<Rightarrow> int list \<times> world" where
  "check_ci subprocess_run tool a s =
     (case s of (exit_codes, w) \<Rightarrow>
        if \<not> skip_ci a then
          (let w1 = print_section_header ''GITHUB ACTIONS CI'' w;
               (ci_exit, w2) = run_tool subprocess_run (tool ''ci_check.py'') [''--limit'', str_int (ci_limit a)] w1
           in (exit_codes @ [ci_exit], w2))
        else (exit_codes, w))"

definition check_sonarcloud :: "(string list \<Rightarrow> string + int) \<Rightarrow> (string \<Rightarrow> string) \<Rightarrow> status_args \<Rightarrow> int list \<times> world \<Rightarrow> int list \<times> world" where
  "check_sonarcloud subprocess_run tool a s =
     (case s of (exit_codes, w) \<Rightarrow>
        if \<not> skip_sonarcloud a then
          (let w1 = print_section_header ''SONARCLOUD ANALYSIS'' w;
               (sonar_exit, w2) = run_tool subprocess_run (tool ''sonarcloud_check.py'')
                  [''--project'', project a, ''--organization'', organization a] w1
           in (exit_codes @ [sonar_exit], w2))
        else (exit_codes, w))"

definition PASSED :: string where
  "PASSED = ICON_OK @ '' PASSED''"

definition FAILED :: string where
  "FAILED = ICON_FAIL @ '' FAILED''"

text \<open>
  The summary of \<open>main\<close>. \<open>exit_codes[i]\<close> raises IndexError out of range; the summary
  then ends with \<open>Inl\<close> of what was printed so far.
\<close>

definition summary_failed :: "status_args \<Rightarrow> int list \<Rightarrow> world \<Rightarrow> world + world" where
  "summary_failed a exit_codes w =
     (let w1 = py_print '''' (py_print (ICON_FAIL @ '' Some checks failed!'') w) in
      case (if \<not> skip_ci a then
              (if 0 < length exit_codes
               then Inr (py_print (''  CI: '' @ (if exit_codes ! 0 = 0 then PASSED else FAILED)) w1)
               else Inl w1)
            else Inr w1) of
        Inl e \<Rightarrow> Inl e
      | Inr w2 \<Rightarrow>
         (case (if \<not> skip_sonarcloud a then
                  (let sonar_idx = (if skip_ci a then 0 else 1::nat) in
                   if sonar_idx < length exit_codes
                   then Inr (py_print (''  SonarCloud: '' @ (if exit_codes ! sonar_idx = 0 then PASSED else FAILED)) w2)
                   else Inl w2)
                else Inr w2) of
            Inl e \<Rightarrow> Inl e
          | Inr w3 \<Rightarrow> Inr (py_print rule_eq (py_print '''' w3))))"

text \<open>
  \<open>main\<close> of status.py: the result is the exit code (\<open>None\<close> when an exception leaves
  \<open>main\<close>) and the final process state.
\<close>

definition status_main :: "(string list \<Rightarrow> string + int) \<Rightarrow> (string \<Rightarrow> string) \<Rightarrow> status_args \<Rightarrow> int option \<times> world" where
  "status_main subprocess_run tool a =
     (let w0 = py_print rule_eq (py_print (''Project: '' @ project a)
                 (py_print rule_eq (py_print ''PROJECT STATUS CHECK'' (py_print rule_eq world0))));
          (exit_codes, w1) = check_sonarcloud subprocess_run tool a (check_ci subprocess_run tool a ([], w0));
          w2 = py_print rule_eq (py_print ''OVERALL STATUS'' (py_print rule_eq (py_print [CHR 0x0A] w1)));
          all_passed = list_all (\<lambda>code. code = 0) exit_codes
      in if all_passed then
           (Some 0, py_print rule_eq (py_print '''' (py_print (ICON_OK @ '' All checks passed!'') w2)))
         else
           (case summary_failed a exit_codes w2 of
              Inr w3 \<Rightarrow> (Some 1, w3)
            | Inl w3 \<Rightarrow> (None, w3)))"

text \<open>The exit codes the two sub-checks hand back to \<open>main\<close>.\<close>

definition exit_of :: "(string list \<Rightarrow> string + int) \<Rightarrow> string list \<Rightarrow> int" where
  "exit_of subprocess_run argv = (case subprocess_run argv of Inr rc \<Rightarrow> rc | Inl e \<Rightarrow> 1)"

definition ci_argv :: "(string \<Rightarrow> string) \<Rightarrow> status_args \<Rightarrow> string list" where
  "ci_argv tool a = [''python3'', tool ''ci_check.py'', ''--limit'', str_int (ci_limit a)]"

definition sonar_argv :: "(string \<Rightarrow> string) \<Rightarrow> status_args \<Rightarrow> string list" where
  "sonar_argv tool a =
     [''python3'', tool ''sonarcloud_check.py'', ''--project'', project a, ''--organization'', organization a]"

text \<open>A concrete invocation, used to run the model.\<close>

definition demo_args :: status_args where
  "demo_args = \<lparr>project = ''demo'', organization = ''org'', ci_limit = 5,
                 skip_ci = False, skip_sonarcloud = False\<rparr>"

definition demo_tool :: "string \<Rightarrow> string" where
  "demo_tool name = ''tools/'' @ name"

definition demo_run :: "string list \<Rightarrow> string + int" where
  "demo_run argv = (if argv ! 1 = ''tools/ci_check.py'' then Inr 1 else Inr 0)"

section \<open>More Python built-ins: string methods, JSON values, exceptions\<close>

text \<open>\<open>sub in s\<close> on strings.\<close>

fun py_in :: "string \<Rightarrow> string \<Rightarrow> bool" where
  "py_in sub [] = (sub = [])"
| "py_in sub (c # cs) = (prefix sub (c # cs) \<or> py_in sub cs)"

text \<open>
  \<open>s.replace(old, new)\<close>: occurrences are found left to right and do not overlap. With
  an empty \<open>old\<close> Python inserts \<open>new\<close> before every character and at the end.
\<close>

function py_replace :: "string \<Rightarrow> string \<Rightarrow> string \<Rightarrow> string" where
  "py_replace old new [] = (if old = [] then new else [])"
| "py_replace old new (c # cs) =
     (if old = [] then new @ c # py_replace old new cs
      else if prefix old (c # cs) then new @ py_replace old new (drop (length old) (c # cs))
      else c # py_replace old new cs)"
  by pat_completeness auto
termination
  by (relation "measure (\<lambda>(old, new, s). length s)") auto

text \<open>
  \<open>s.split(sep)\<close> for a non-empty separator (the tools only pass literals): \<open>cur\<close> is
  the piece being read. The result always has at least one piece.
\<close>

function split_from :: "string \<Rightarrow> string \<Rightarrow> string \<Rightarrow> string list" where
  "split_from sep cur [] = [cur]"
| "split_from sep cur (c # cs) =
     (if sep \<noteq> [] \<and> prefix sep (c # cs) then cur # split_from sep [] (drop (length sep) (c # cs))
      else split_from sep (cur @ [c]) cs)"
  by pat_completeness auto
termination
  by (relation "measure (\<lambda>(sep, cur, s). length s)") auto

definition py_split :: "string \<Rightarrow> string \<Rightarrow> string list" where
  "py_split sep s = split_from sep [] s"

text \<open>
  \<open>s.strip()\<close> removes from both ends the characters for which \<open>str.isspace\<close> holds:
  U+0009 to U+000D, U+001C to U+0020, U+0085, U+00A0, U+1680, U+2000 to U+200A, U+2028,
  U+2029, U+202F, U+205F and U+3000, listed here by their UTF-8 bytes. No encoding of a
  character starts or ends with the encoding of another one, so that removing these byte
  sequences from the ends of the bytes of a \<open>str\<close> removes these characters.
\<close>

definition whitespace :: "string list" where
  "whitespace =
     [[CHR 0x09], [CHR 0x0A], [CHR 0x0B], [CHR 0x0C], [CHR 0x0D],
      [CHR 0x1C], [CHR 0x1D], [CHR 0x1E], [CHR 0x1F], [CHR 0x20],
      [CHR 0xC2, CHR 0x85], [CHR 0xC2, CHR 0xA0],
      [CHR 0xE1, CHR 0x9A, CHR 0x80],
      [CHR 0xE2, CHR 0x80, CHR 0x80], [CHR 0xE2, CHR 0x80, CHR 0x81],
      [CHR 0xE2, CHR 0x80, CHR 0x82], [CHR 0xE2, CHR 0x80, CHR 0x83],
      [CHR 0xE2, CHR 0x80, CHR 0x84], [CHR 0xE2, CHR 0x80, CHR 0x85],
      [CHR 0xE2, CHR 0x80, CHR 0x86], [CHR 0xE2, CHR 0x80, CHR 0x87],
      [CHR 0xE2, CHR 0x80, CHR 0x88], [CHR 0xE2, CHR 0x80, CHR 0x89],
      [CHR 0xE2, CHR 0x80, CHR 0x8A],
      [CHR 0xE2, CHR 0x80, CHR 0xA8], [CHR 0xE2, CHR 0x80, CHR 0xA9],
      [CHR 0xE2, CHR 0x80, CHR 0xAF], [CHR 0xE2, CHR 0x81, CHR 0x9F],
      [CHR 0xE3, CHR 0x80, CHR 0x80]]"

function py_lstrip :: "string \<Rightarrow> string" where
  "py_lstrip s =
     (case find (\<lambda>w. prefix w s) whitespace of
        Some w \<Rightarrow> py_lstrip (drop (length w) s)
      | None \<Rightarrow> s)"
  by pat_completeness auto
termination
proof (relation "measure length")
  show "wf (measure length)" by simp
next
  fix s w
  assume "find (\<lambda>w. prefix w s) whitespace = Some w"
  then have w: "w \<in> set whitespace" and p: "prefix w s"
    by (auto simp: find_Some_iff)
  from w have "w \<noteq> []" by (auto simp: whitespace_def)
  with p have "length (drop (length w) s) < length s"
    by (auto simp: prefix_def)
  then show "(drop (length w) s, s) \<in> measure length" by simp
qed

function py_rstrip :: "string \<Rightarrow> string" where
  "py_rstrip s =
     (case find (\<lambda>w. suffix w s) whitespace of
        Some w \<Rightarrow> py_rstrip (take (length s - length w) s)
      | None \<Rightarrow> s)"
  by pat_completeness auto
termination
proof (relation "measure length")
  show "wf (measure length)" by simp
next
  fix s w
  assume "find (\<lambda>w. suffix w s) whitespace = Some w"
  then have w: "w \<in> set whitespace" and p: "suffix w s"
    by (auto simp: find_Some_iff)
  from w have "w \<noteq> []" by (auto simp: whitespace_def)
  with p have "length (take (length s - length w) s) < length s"
    by (auto simp: suffix_def)
  then show "(take (length s - length w) s, s) \<in> measure length" by simp
qed

declare py_lstrip.simps [simp del]
declare py_rstrip.simps [simp del]

definition py_strip :: "string \<Rightarrow> string" where
  "py_strip s = py_rstrip (py_lstrip s)"

text \<open>
  The JSON scalars that occur as field values of the fetched records, and \<open>str(v)\<close> as an
  f-string renders them.
\<close>

datatype jval = JNull | JBool bool | JInt int | JStr string

fun py_str :: "jval \<Rightarrow> string" where
  "py_str JNull = ''None''"
| "py_str (JBool b) = (if b then ''True'' else ''False'')"
| "py_str (JInt i) = str_int i"
| "py_str (JStr s) = s"

text \<open>A JSON object is a dict; \<open>d.get(key, default)\<close>.\<close>

type_synonym jdict = "string \<rightharpoonup> jval"

definition dict_get :: "jdict \<Rightarrow> string \<Rightarrow> jval \<Rightarrow> jval" where
  "dict_get d key dflt = (case d key of Some v \<Rightarrow> v | None \<Rightarrow> dflt)"

text \<open>The exceptions that can leave a function of the tools.\<close>

datatype py_exn =
    SystemExit int
  | IndexError
  | AttributeError
  | TypeError
  | ValueError string
  | OSError string

text \<open>
  The outcome of \<open>subprocess.run(..., check=True)\<close>: the captured standard output (already
  decoded where the caller decodes it), or one of the two exceptions the tools handle, with
  the text of the exception.
\<close>

datatype 'a proc = Returned 'a | CalledProcessError string | FileNotFoundError string

text \<open>
  The functions of the Python library whose results the tools only pass on: \<open>str.upper\<close>,
  \<open>datetime.fromisoformat\<close> (\<open>None\<close> when it raises), \<open>datetime.strftime\<close> with the
  format as second argument (\<open>None\<close> when it raises), \<open>float\<close> on a string (\<open>None\<close> when
  it raises ValueError) and the format specification \<open>.1f\<close>. A Python float is a finite
  rational, an infinity or NaN.
\<close>

datatype pyfloat = Finite rat | PosInf | NegInf | NaN

record 'dt pylib =
  upper :: "string \<Rightarrow> string"
  fromisoformat :: "string \<Rightarrow> 'dt option"
  strftime :: "'dt \<Rightarrow> string \<Rightarrow> string option"
  float_of_str :: "string \<Rightarrow> pyfloat option"
  format_1f :: "pyfloat \<Rightarrow> string"

text \<open>\<open>x >= n\<close> for a float \<open>x\<close> and an integer literal \<open>n\<close>; every comparison with NaN is false.\<close>

fun float_ge :: "pyfloat \<Rightarrow> int \<Rightarrow> bool" where
  "float_ge (Finite q) n = (of_int n \<le> q)"
| "float_ge PosInf n = True"
| "float_ge NegInf n = False"
| "float_ge NaN n = False"

text \<open>
  The timestamp idiom of both formatters:
  \<open>try: dt = datetime.fromisoformat(s.replace('Z', '+00:00')); s = dt.strftime(fmt)  except: pass\<close>.
  \<open>replace\<close> is a method of \<open>str\<close> only; on any other value the attribute lookup raises
  inside the \<open>try\<close>, and the bare \<open>except\<close> keeps the value as it was.
\<close>

definition format_timestamp :: "'dt pylib \<Rightarrow> string \<Rightarrow> jval \<Rightarrow> string" where
  "format_timestamp L fmt v =
     (case v of
        JStr s \<Rightarrow>
          (case fromisoformat L (py_replace ''Z'' ''+00:00'' s) of
             Some dt \<Rightarrow> (case strftime L dt fmt of Some t \<Rightarrow> t | None \<Rightarrow> s)
           | None \<Rightarrow> s)
      | _ \<Rightarrow> py_str v)"

section \<open>ci\_check.py: the CI checker\<close>

text \<open>\<open>CIChecker._detect_repo\<close>. \<open>parts[1]\<close> raises IndexError when there is one part only.\<close>

definition repo_parts :: "string \<Rightarrow> py_exn + string list" where
  "repo_parts remote_url =
     (if prefix ''git@github.com:'' remote_url then
        Inr (py_split ''/'' (py_replace ''.git'' '''' (py_replace ''git@github.com:'' '''' remote_url)))
      else if py_in ''github.com/'' remote_url then
        Inr (py_split ''/'' (py_replace ''.git'' '''' (last (py_split ''github.com/'' remote_url))))
      else Inl (ValueError ''Cannot parse GitHub URL''))"

definition parse_remote :: "string \<Rightarrow> py_exn + string \<times> string" where
  "parse_remote remote_url =
     (if py_in ''github.com'' remote_url then
        (case repo_parts remote_url of
           Inl e \<Rightarrow> Inl e
         | Inr parts \<Rightarrow>
             (if 1 < length parts then Inr (parts ! 0, parts ! 1) else Inl IndexError))
      else Inl (ValueError ''Not a GitHub repository''))"

text \<open>
  The result of \<open>_detect_repo\<close> with the lines it writes to standard error. The handler
  catches CalledProcessError and ValueError only and leaves through \<open>sys.exit(1)\<close>;
  FileNotFoundError (no git program, an OSError) and IndexError pass through it.
\<close>

definition detect_failed :: "string \<Rightarrow> (py_exn + string \<times> string) \<times> string list" where
  "detect_failed e =
     (Inl (SystemExit 1),
      [''Error: Unable to detect GitHub repository: '' @ e,
       ''Make sure you're in a git repository with a GitHub remote.''])"

definition detect_repo :: "string proc \<Rightarrow> (py_exn + string \<times> string) \<times> string list" where
  "detect_repo git_remote =
     (case git_remote of
        CalledProcessError e \<Rightarrow> detect_failed e
      | FileNotFoundError e \<Rightarrow> (Inl (OSError e), [])
      | Returned stdout \<Rightarrow>
          (case parse_remote (py_strip stdout) of
             Inl (ValueError e) \<Rightarrow> detect_failed e
           | Inl e \<Rightarrow> (Inl e, [])
           | Inr p \<Rightarrow> (Inr p, [])))"

text \<open>\<open>CIChecker.check_gh_cli\<close>.\<close>

definition check_gh_cli :: "unit proc \<Rightarrow> bool" where
  "check_gh_cli gh_version = (case gh_version of Returned u \<Rightarrow> True | _ \<Rightarrow> False)"

text \<open>
  \<open>CIChecker.get_workflow_runs_gh\<close>. \<open>workflow\<close> is \<open>None\<close> or a string, and is used
  when it is a non-empty string. \<open>gh\<close> maps the command to the parsed JSON list the
  program printed, or to the exception of \<open>subprocess.run\<close>.
\<close>

definition gh_cmd :: "int \<Rightarrow> string option \<Rightarrow> string list" where
  "gh_cmd limit workflow =
     [''gh'', ''run'', ''list'', ''--json'',
      ''databaseId,name,status,conclusion,createdAt,updatedAt,headBranch,event'',
      ''--limit'', str_int limit]
     @ (case workflow of
          Some wname \<Rightarrow> (if wname \<noteq> [] then [''--workflow'', wname] else [])
        | None \<Rightarrow> [])"

definition get_workflow_runs_gh :: "(string list \<Rightarrow> jdict list proc) \<Rightarrow> int \<Rightarrow> string option \<Rightarrow> (py_exn + jdict list) \<times> string list" where
  "get_workflow_runs_gh gh limit workflow =
     (case gh (gh_cmd limit workflow) of
        Returned runs \<Rightarrow> (Inr runs, [])
      | CalledProcessError e \<Rightarrow>
          (Inl (SystemExit 1),
           [''Error running gh CLI: '' @ e, ''Make sure gh CLI is installed and authenticated.''])
      | FileNotFoundError e \<Rightarrow> (Inl (OSError e), []))"

text \<open>
  \<open>CIChecker.format_run_status\<close>, first the choice of icon and status text. A value that
  is not a string equals no string literal, and has no method \<open>upper\<close>.
\<close>

definition status_icon_text :: "'dt pylib \<Rightarrow> jval \<Rightarrow> jval \<Rightarrow> py_exn + string \<times> string" where
  "status_icon_text L status conclusion =
     (if status = JStr ''completed'' then
        (if conclusion = JStr ''success'' then Inr (ICON_OK, ''SUCCESS'')
         else if conclusion = JStr ''failure'' then Inr (ICON_FAIL, ''FAILED'')
         else if conclusion = JStr ''cancelled'' then Inr (ICON_WARN, ''CANCELLED'')
         else if conclusion = JStr ''skipped'' then Inr (ICON_WARN, ''SKIPPED'')
         else (case conclusion of
                 JStr c \<Rightarrow> Inr (ICON_UNKNOWN, upper L c)
               | _ \<Rightarrow> Inl AttributeError))
      else if status = JStr ''in_progress'' then Inr (ICON_PROGRESS, ''IN PROGRESS'')
      else if status = JStr ''queued'' then Inr (ICON_QUEUED, ''QUEUED'')
      else (case status of
              JStr s \<Rightarrow> Inr (ICON_UNKNOWN, upper L s)
            | _ \<Rightarrow> Inl AttributeError))"

definition format_run_status :: "'dt pylib \<Rightarrow> jdict \<Rightarrow> py_exn + string" where
  "format_run_status L run =
     (let status = dict_get run ''status'' (JStr ''unknown'');
          conclusion = dict_get run ''conclusion'' (JStr ''unknown'')
      in case status_icon_text L status conclusion of
           Inl e \<Rightarrow> Inl e
         | Inr (icon, status_text) \<Rightarrow>
             (let created_at = dict_get run ''createdAt'' (JStr '''');
                  time_str = format_timestamp L ''%Y-%m-%d %H:%M:%S'' created_at;
                  name = dict_get run ''name'' (JStr ''Unknown'');
                  branch = dict_get run ''headBranch'' (JStr ''unknown'');
                  event = dict_get run ''event'' (JStr ''unknown'');
                  run_id = dict_get run ''databaseId'' (JStr ''?'')
              in Inr (icon @ '' '' @ status_text @ '' - '' @ py_str name @ '' (#'' @ py_str run_id @ '')''
                      @ [CHR 0x0A] @ ''   Branch: '' @ py_str branch @ '' | Event: '' @ py_str event
                      @ '' | Time: '' @ time_str)))"

text \<open>
  The loop of \<open>CIChecker.format_status_report\<close> over the runs: the state is the list of
  lines and the three counters.
\<close>

fun runs_loop :: "'dt pylib \<Rightarrow> jdict list \<Rightarrow> string list \<times> nat \<times> nat \<times> nat \<Rightarrow> py_exn + string list \<times> nat \<times> nat \<times> nat" where
  "runs_loop L [] st = Inr st"
| "runs_loop L (run # runs) (lines, success_count, failure_count, other_count) =
     (case format_run_status L run of
        Inl e \<Rightarrow> Inl e
      | Inr line \<Rightarrow>
          (let conclusion = dict_get run ''conclusion'' (JStr '''') in
           if conclusion = JStr ''success'' then
             runs_loop L runs (lines @ [line], success_count + 1, failure_count, other_count)
           else if conclusion = JStr ''failure'' then
             runs_loop L runs (lines @ [line], success_count, failure_count + 1, other_count)
           else
             runs_loop L runs (lines @ [line], success_count, failure_count, other_count + 1)))"

definition ci_header :: "string \<Rightarrow> string \<Rightarrow> string option \<Rightarrow> string list" where
  "ci_header repo_owner repo_name workflow =
     [rule_eq, ''GitHub Actions CI Status'', rule_eq,
      ''Repository: '' @ repo_owner @ ''/'' @ repo_name]
     @ (case workflow of
          Some wname \<Rightarrow> (if wname \<noteq> [] then [''Workflow: '' @ wname] else [])
        | None \<Rightarrow> [])
     @ ['''']"

text \<open>
  \<open>CIChecker.format_status_report\<close>: the lines of the report (joined by the caller of this
  definition, \<open>ci_report\<close>), with what the fetch wrote to standard error.
\<close>

definition ci_report_lines :: "'dt pylib \<Rightarrow> (string list \<Rightarrow> jdict list proc) \<Rightarrow> string \<Rightarrow> string \<Rightarrow> int \<Rightarrow> string option \<Rightarrow> (py_exn + string list) \<times> string list" where
  "ci_report_lines L gh repo_owner repo_name limit workflow =
     (let lines0 = ci_header repo_owner repo_name workflow in
      case get_workflow_runs_gh gh limit workflow of
        (Inl e, errs) \<Rightarrow> (Inl e, errs)
      | (Inr runs, errs) \<Rightarrow>
          if runs = [] then
            (Inr (lines0 @ [''No workflow runs found.'', '''', rule_eq]), errs)
          else
            (case runs_loop L runs
                    (lines0 @ [''Recent Runs (showing '' @ str_nat (length runs) @ ''):'', rule_dash], 0, 0, 0) of
               Inl e \<Rightarrow> (Inl e, errs)
             | Inr (lines1, success_count, failure_count, other_count) \<Rightarrow>
                 (Inr (lines1 @ ['''', ''Summary:'', rule_dash,
                                 ''  Successful: '' @ str_nat success_count,
                                 ''  Failed: '' @ str_nat failure_count,
                                 ''  Other: '' @ str_nat other_count,
                                 '''', rule_eq]), errs)))"

definition ci_report :: "'dt pylib \<Rightarrow> (string list \<Rightarrow> jdict list proc) \<Rightarrow> string \<Rightarrow> string \<Rightarrow> int \<Rightarrow> string option \<Rightarrow> (py_exn + string) \<times> string list" where
  "ci_report L gh repo_owner repo_name limit workflow =
     (case ci_report_lines L gh repo_owner repo_name limit workflow of
        (Inl e, errs) \<Rightarrow> (Inl e, errs)
      | (Inr lines, errs) \<Rightarrow> (Inr (join_lines lines), errs))"

text \<open>
  The environment of one run of ci\_check.py: the outcome of \<open>git remote get-url origin\<close>,
  of \<open>gh --version\<close>, and of the \<open>n\<close>-th call (from 0) of \<open>gh run list\<close>.
\<close>

record ci_env =
  git_remote :: "string proc"
  gh_version :: "unit proc"
  gh_run_list :: "nat \<Rightarrow> string list \<Rightarrow> jdict list proc"

record ci_args =
  limit :: int
  workflow :: "string option"

text \<open>
  How an exception ends the process: \<open>sys.exit(n)\<close> passes the handler of \<open>main\<close> and
  exits with \<open>n\<close>; any other exception is caught there, and \<open>main\<close> returns 1.
\<close>

fun exit_code_of :: "py_exn \<Rightarrow> int" where
  "exit_code_of (SystemExit n) = n"
| "exit_code_of e = 1"

text \<open>
  \<open>main\<close> of ci\_check.py: the exit code of the process, the arguments of its \<open>print\<close>
  calls on standard output, and the lines the tool writes to standard error (the message
  and traceback of the handler of \<open>main\<close> left out).
\<close>

definition ci_main :: "'dt pylib \<Rightarrow> ci_env \<Rightarrow> ci_args \<Rightarrow> int \<times> string list \<times> string list" where
  "ci_main L env a =
     (case detect_repo (git_remote env) of
        (Inl e, errs) \<Rightarrow> (exit_code_of e, [], errs)
      | (Inr (repo_owner, repo_name), errs) \<Rightarrow>
          if \<not> check_gh_cli (gh_version env) then
            (1, [], errs @ [''Error: gh CLI not found'', ''Install with: https://cli.github.com/''])
          else
            (case ci_report L (gh_run_list env 0) repo_owner repo_name (limit a) (workflow a) of
               (Inl e, errs1) \<Rightarrow> (exit_code_of e, [], errs @ errs1)
             | (Inr report, errs1) \<Rightarrow>
                 (case get_workflow_runs_gh (gh_run_list env 1) 1 (workflow a) of
                    (Inl e, errs2) \<Rightarrow> (exit_code_of e, [report], errs @ errs1 @ errs2)
                  | (Inr runs, errs2) \<Rightarrow>
                      if runs \<noteq> [] \<and> hd runs ''conclusion'' = Some (JStr ''failure'')
                      then (1, [report], errs @ errs1 @ errs2)
                      else (0, [report], errs @ errs1 @ errs2))))"

section \<open>sonarcloud\_check.py: the quality checker\<close>

text \<open>
  The outcome of \<open>SonarCloudChecker._get\<close>: the decoded JSON, or a RequestException, on
  which \<open>_get\<close> prints the error and calls \<open>sys.exit(1)\<close>.
\<close>

datatype 'a http = Response 'a | RequestException string

definition api_get :: "'a http \<Rightarrow> (py_exn + 'a) \<times> string list" where
  "api_get r =
     (case r of
        Response data \<Rightarrow> (Inr data, [])
      | RequestException e \<Rightarrow>
          (Inl (SystemExit 1), [''Error: Failed to communicate with SonarCloud API: '' @ e]))"

text \<open>
  One entry \<open>{metric, value}\<close> of a \<open>measures\<close> list (\<open>value\<close> may be missing), and one
  entry \<open>{path, measures}\<close> of the \<open>components\<close> list (\<open>path\<close> may be missing).
\<close>

record measure =
  metric :: string
  mvalue :: "string option"

record component =
  path :: "string option"
  cmeasures :: "measure list"

text \<open>
  The environment of one run of sonarcloud\_check.py: the responses to the four requests;
  the quality gate is requested twice, by the report and by \<open>main\<close>. An analysis is a JSON
  object, kept as its list of members.
\<close>

record sonar_env =
  resp_analyses :: "(string \<times> jval) list list http"
  resp_quality_gate :: "nat \<Rightarrow> jdict http"
  resp_measures :: "measure list http"
  resp_components :: "component list http"

text \<open>
  \<open>get_project_measures\<close>: the dict comprehension \<open>{m['metric']: m.get('value', '0')}\<close>;
  a later entry replaces an earlier one with the same metric.
\<close>

definition project_measures :: "measure list \<Rightarrow> string \<rightharpoonup> string" where
  "project_measures ms =
     map_of (rev (map (\<lambda>m. (metric m, case mvalue m of Some v \<Rightarrow> v | None \<Rightarrow> ''0'')) ms))"

definition measures_get :: "(string \<rightharpoonup> string) \<Rightarrow> string \<Rightarrow> string \<Rightarrow> string" where
  "measures_get pmeasures key dflt = (case pmeasures key of Some v \<Rightarrow> v | None \<Rightarrow> dflt)"

text \<open>\<open>get_recent_analysis\<close>: \<open>analyses[0] if analyses else None\<close>.\<close>

definition recent_analysis :: "(string \<times> jval) list list \<Rightarrow> (string \<times> jval) list option" where
  "recent_analysis analyses = (case analyses of [] \<Rightarrow> None | a # _ \<Rightarrow> Some a)"

text \<open>\<open>get_coverage_detail\<close>: the filter applies when \<open>component_filter\<close> is a non-empty string.\<close>

definition coverage_detail :: "component list \<Rightarrow> string option \<Rightarrow> component list" where
  "coverage_detail components component_filter =
     (case component_filter of
        Some f \<Rightarrow>
          (if f \<noteq> [] then
             filter (\<lambda>c. prefix f (case path c of Some p \<Rightarrow> p | None \<Rightarrow> '''')) components
           else components)
      | None \<Rightarrow> components)"

text \<open>The three-tier icon of a coverage value: \<open>">= 80"\<close>, \<open>">= 60"\<close>, else.\<close>

definition coverage_icon :: "pyfloat \<Rightarrow> string" where
  "coverage_icon cov = (if float_ge cov 80 then ICON_OK else if float_ge cov 60 then ICON_WARN else ICON_FAIL)"

text \<open>The quality gate icon.\<close>

definition gate_icon :: "jval \<Rightarrow> string" where
  "gate_icon status = (if status = JStr ''OK'' then ICON_OK else if status = JStr ''ERROR'' then ICON_FAIL else ICON_WARN)"

text \<open>The coverage line of the project metrics; \<open>float(coverage)\<close> raises ValueError on a string that is no number.\<close>

definition coverage_line :: "'dt pylib \<Rightarrow> (string \<rightharpoonup> string) \<Rightarrow> py_exn + string" where
  "coverage_line L pmeasures =
     (let coverage = measures_get pmeasures ''coverage'' ''N/A'' in
      if coverage \<noteq> ''N/A'' then
        (case float_of_str L coverage of
           None \<Rightarrow> Inl (ValueError coverage)
         | Some cov_val \<Rightarrow> Inr (''  Coverage: '' @ coverage_icon cov_val @ '' '' @ coverage @ ''%''))
      else Inr (''  Coverage: '' @ ICON_FAIL @ '' No data''))"

definition metrics_lines :: "'dt pylib \<Rightarrow> (string \<rightharpoonup> string) \<Rightarrow> py_exn + string list" where
  "metrics_lines L pmeasures =
     (case coverage_line L pmeasures of
        Inl e \<Rightarrow> Inl e
      | Inr cov_line \<Rightarrow>
          (let bugs = measures_get pmeasures ''bugs'' ''0'';
               vulnerabilities = measures_get pmeasures ''vulnerabilities'' ''0'';
               code_smells = measures_get pmeasures ''code_smells'' ''0'';
               hotspots = measures_get pmeasures ''security_hotspots'' ''0'';
               bugs_icon = (if bugs = ''0'' then ICON_OK else ICON_FAIL);
               vuln_icon = (if vulnerabilities = ''0'' then ICON_OK else ICON_FAIL)
           in Inr [''Project Metrics:'', rule_dash, cov_line,
                   ''  Bugs: '' @ bugs_icon @ '' '' @ bugs,
                   ''  Vulnerabilities: '' @ vuln_icon @ '' '' @ vulnerabilities,
                   ''  Code Smells: '' @ code_smells,
                   ''  Security Hotspots: '' @ hotspots,
                   ''  Lines of Code: '' @ measures_get pmeasures ''lines'' ''0'',
                   '''']))"

text \<open>
  The file loop. \<open>file_measures\<close> is \<open>{m['metric']: m.get('value')}\<close>, whose values may be
  \<open>None\<close>; an f-string renders \<open>None\<close> as the text None; \<open>float(None)\<close> raises TypeError.
\<close>

definition file_measures :: "measure list \<Rightarrow> string \<rightharpoonup> string option" where
  "file_measures ms = map_of (rev (map (\<lambda>m. (metric m, mvalue m)) ms))"

definition opt_str :: "string option \<Rightarrow> string" where
  "opt_str v = (case v of Some s \<Rightarrow> s | None \<Rightarrow> ''None'')"

definition file_line :: "'dt pylib \<Rightarrow> component \<Rightarrow> py_exn + (string + string)" where
  "file_line L file_info =
     (let fm = file_measures (cmeasures file_info);
          p = (case path file_info of Some p \<Rightarrow> p | None \<Rightarrow> ''Unknown'')
      in case fm ''coverage'' of
           Some v \<Rightarrow>
             (case v of
                None \<Rightarrow> Inl TypeError
              | Some s \<Rightarrow>
                  (case float_of_str L s of
                     None \<Rightarrow> Inl (ValueError s)
                   | Some cov \<Rightarrow>
                       (let lines_to_cover = (case fm ''lines_to_cover'' of Some x \<Rightarrow> opt_str x | None \<Rightarrow> ''?'');
                            uncovered = (case fm ''uncovered_lines'' of Some x \<Rightarrow> opt_str x | None \<Rightarrow> ''?'')
                        in Inr (Inl (''  '' @ coverage_icon cov @ '' '' @ p @ '': '' @ format_1f L cov @ ''% (''
                                     @ lines_to_cover @ '' lines, '' @ uncovered @ '' uncovered)'')))))
         | None \<Rightarrow> Inr (Inr (''  '' @ ICON_FAIL @ '' '' @ p @ '': No coverage data'')))"

fun files_loop :: "'dt pylib \<Rightarrow> component list \<Rightarrow> string list \<times> string list \<Rightarrow> py_exn + string list \<times> string list" where
  "files_loop L [] st = Inr st"
| "files_loop L (file_info # rest) (files_with_coverage, files_without_coverage) =
     (case file_line L file_info of
        Inl e \<Rightarrow> Inl e
      | Inr (Inl l) \<Rightarrow> files_loop L rest (files_with_coverage @ [l], files_without_coverage)
      | Inr (Inr l) \<Rightarrow> files_loop L rest (files_with_coverage, files_without_coverage @ [l]))"

text \<open>The lines between the heading of the file section and its totals.\<close>

definition file_section :: "string list \<Rightarrow> string list \<Rightarrow> string list" where
  "file_section files_with_coverage files_without_coverage =
     (if files_with_coverage \<noteq> [] then sort files_with_coverage else [])
     @ (if files_without_coverage \<noteq> [] then
          (if files_with_coverage \<noteq> [] then [''''] else []) @ sort files_without_coverage
        else [])"

definition detail_lines :: "'dt pylib \<Rightarrow> component list \<Rightarrow> py_exn + string list" where
  "detail_lines L detail =
     (if detail \<noteq> [] then
        (case files_loop L detail ([], []) of
           Inl e \<Rightarrow> Inl e
         | Inr (files_with_coverage, files_without_coverage) \<Rightarrow>
             Inr ([''File Coverage:'', rule_dash]
                  @ file_section files_with_coverage files_without_coverage
                  @ ['''',
                     ''Total Files: '' @ str_nat (length detail),
                     ''With Coverage: '' @ str_nat (length files_with_coverage),
                     ''Without Coverage: '' @ str_nat (length files_without_coverage)]))
      else Inr [''No files found in analysis''])"

definition sonar_header :: "string \<Rightarrow> string option \<Rightarrow> string list" where
  "sonar_header project_key component =
     [rule_eq, ''SonarCloud Status Check'', rule_eq, ''Project: '' @ project_key]
     @ (case component of
          Some c \<Rightarrow> (if c \<noteq> [] then [''Component: '' @ c] else [])
        | None \<Rightarrow> [])
     @ ['''']"

text \<open>The lines on the last analysis; an empty JSON object counts as no analysis.\<close>

definition analysis_lines :: "'dt pylib \<Rightarrow> (string \<times> jval) list option \<Rightarrow> string list" where
  "analysis_lines L analysis =
     (case analysis of
        None \<Rightarrow> []
      | Some a \<Rightarrow>
          (if a \<noteq> [] then
             [''Last Analysis: '' @ format_timestamp L ''%Y-%m-%d %H:%M:%S UTC''
                 (case map_of (rev a) ''date'' of Some v \<Rightarrow> v | None \<Rightarrow> JStr ''Unknown''), '''']
           else []))"

definition gate_lines :: "jdict \<Rightarrow> string list" where
  "gate_lines qg_status =
     (let status = dict_get qg_status ''status'' (JStr ''UNKNOWN'')
      in [''Quality Gate: '' @ gate_icon status @ '' '' @ py_str status, ''''])"

text \<open>
  \<open>SonarCloudChecker.format_status_report\<close>: the lines of the report, or the exception
  that ends it, with the lines written to standard error. The requests are made in the
  order of the source: analysis, quality gate, measures, components.
\<close>

definition sonar_report_lines :: "'dt pylib \<Rightarrow> sonar_env \<Rightarrow> string \<Rightarrow> string option \<Rightarrow> (py_exn + string list) \<times> string list" where
  "sonar_report_lines L env project_key component =
     (case api_get (resp_analyses env) of
        (Inl e, errs) \<Rightarrow> (Inl e, errs)
      | (Inr analyses, _) \<Rightarrow>
     (case api_get (resp_quality_gate env 0) of
        (Inl e, errs) \<Rightarrow> (Inl e, errs)
      | (Inr qg_status, _) \<Rightarrow>
     (case api_get (resp_measures env) of
        (Inl e, errs) \<Rightarrow> (Inl e, errs)
      | (Inr ms, _) \<Rightarrow>
     (case metrics_lines L (project_measures ms) of
        Inl e \<Rightarrow> (Inl e, [])
      | Inr mlines \<Rightarrow>
     (case api_get (resp_components env) of
        (Inl e, errs) \<Rightarrow> (Inl e, errs)
      | (Inr components, _) \<Rightarrow>
     (case detail_lines L (coverage_detail components component) of
        Inl e \<Rightarrow> (Inl e, [])
      | Inr dlines \<Rightarrow>
          (Inr (sonar_header project_key component
                @ analysis_lines L (recent_analysis analyses)
                @ gate_lines qg_status
                @ mlines @ dlines @ ['''', rule_eq]), [])))))))"

record sonar_args =
  sproject :: string
  sorganization :: string
  scomponent :: "string option"

text \<open>
  \<open>main\<close> of sonarcloud\_check.py: exit code, the arguments of \<open>print\<close> on standard
  output, and the lines written to standard error by \<open>_get\<close>.
\<close>

definition sonar_main :: "'dt pylib \<Rightarrow> sonar_env \<Rightarrow> sonar_args \<Rightarrow> int \<times> string list \<times> string list" where
  "sonar_main L env a =
     (case sonar_report_lines L env (sproject a) (scomponent a) of
        (Inl e, errs) \<Rightarrow> (exit_code_of e, [], errs)
      | (Inr lines, errs) \<Rightarrow>
          (let report = join_lines lines in
           case api_get (resp_quality_gate env 1) of
             (Inl e, errs1) \<Rightarrow> (exit_code_of e, [report], errs @ errs1)
           | (Inr qg_status, errs1) \<Rightarrow>
               if qg_status ''status'' = Some (JStr ''ERROR'') then (1, [report], errs @ errs1)
               else (0, [report], errs @ errs1)))"

section \<open>Concrete inputs\<close>

text \<open>
  A library that agrees with Python on the few arguments used below: \<open>upper\<close> on ASCII
  letters, one timestamp, three coverage values.
\<close>

definition ascii_upper :: "char \<Rightarrow> char" where
  "ascii_upper c = (if CHR ''a'' \<le> c \<and> c \<le> CHR ''z'' then char_of (of_char c - (32::nat)) else c)"

definition demo_lib :: "string pylib" where
  "demo_lib = \<lparr>
     upper = map ascii_upper,
     fromisoformat = (\<lambda>s. if s = ''2024-01-02T03:04:05+00:00'' then Some s else None),
     strftime = (\<lambda>dt fmt.
        if dt = ''2024-01-02T03:04:05+00:00'' \<and> fmt = ''%Y-%m-%d %H:%M:%S'' then Some ''2024-01-02 03:04:05''
        else if dt = ''2024-01-02T03:04:05+00:00'' \<and> fmt = ''%Y-%m-%d %H:%M:%S UTC'' then Some ''2024-01-02 03:04:05 UTC''
        else None),
     float_of_str = (\<lambda>s. if s = ''79.9'' then Some (Finite (799 / 10))
                         else if s = ''80.0'' then Some (Finite 80)
                         else if s = ''59.9'' then Some (Finite (599 / 10))
                         else None),
     format_1f = (\<lambda>x. if x = Finite (799 / 10) then ''79.9''
                       else if x = Finite 80 then ''80.0''
                       else if x = Finite (599 / 10) then ''59.9'' else ''nan'')\<rparr>"

definition demo_run1 :: jdict where
  "demo_run1 = [''databaseId'' \<mapsto> JInt 42, ''name'' \<mapsto> JStr ''build'', ''status'' \<mapsto> JStr ''completed'',
                ''conclusion'' \<mapsto> JStr ''success'', ''createdAt'' \<mapsto> JStr ''2024-01-02T03:04:05Z'',
                ''headBranch'' \<mapsto> JStr ''main'', ''event'' \<mapsto> JStr ''push'']"

definition demo_run2 :: jdict where
  "demo_run2 = [''databaseId'' \<mapsto> JInt 43, ''name'' \<mapsto> JStr ''build'', ''status'' \<mapsto> JStr ''completed'',
                ''conclusion'' \<mapsto> JStr ''timed_out'', ''createdAt'' \<mapsto> JStr ''yesterday'',
                ''headBranch'' \<mapsto> JStr ''main'', ''event'' \<mapsto> JStr ''push'']"

definition demo_run3 :: jdict where
  "demo_run3 = [''databaseId'' \<mapsto> JInt 44, ''name'' \<mapsto> JStr ''build'', ''status'' \<mapsto> JStr ''completed'',
                ''conclusion'' \<mapsto> JStr ''failure'', ''createdAt'' \<mapsto> JStr ''2024-01-02T03:04:05Z'',
                ''headBranch'' \<mapsto> JStr ''main'', ''event'' \<mapsto> JStr ''push'']"

definition demo_ci_env :: "string \<Rightarrow> jdict list \<Rightarrow> jdict list \<Rightarrow> ci_env" where
  "demo_ci_env remote runs0 runs1 = \<lparr>
     git_remote = Returned (remote @ [CHR 0x0A]),
     gh_version = Returned (),
     gh_run_list = (\<lambda>n argv. if n = 0 then Returned runs0 else Returned runs1)\<rparr>"

definition demo_ci_args :: ci_args where
  "demo_ci_args = \<lparr>limit = 5, workflow = None\<rparr>"

text \<open>The three runs of the concrete inputs as the answer of \<open>gh run list\<close>, and the report expected for them.\<close>

definition demo_gh :: "string list \<Rightarrow> jdict list proc" where
  "demo_gh argv = Returned [demo_run1, demo_run2, demo_run3]"

definition demo_report_lines :: "string list" where
  "demo_report_lines =
     [rule_eq, ''GitHub Actions CI Status'', rule_eq, ''Repository: griswaldbrooks/sonarcloud-cpp-minimal'', '''',
      ''Recent Runs (showing 3):'', rule_dash,
      ICON_OK @ '' SUCCESS - build (#42)'' @ [CHR 0x0A]
        @ ''   Branch: main | Event: push | Time: 2024-01-02 03:04:05'',
      ICON_UNKNOWN @ '' TIMED_OUT - build (#43)'' @ [CHR 0x0A]
        @ ''   Branch: main | Event: push | Time: yesterday'',
      ICON_FAIL @ '' FAILED - build (#44)'' @ [CHR 0x0A]
        @ ''   Branch: main | Event: push | Time: 2024-01-02 03:04:05'',
      '''', ''Summary:'', rule_dash,
      ''  Successful: 1'', ''  Failed: 1'', ''  Other: 1'', '''', rule_eq]"

text \<open>
  Answers of the SonarCloud API for the concrete inputs: no analysis, a quality gate with
  the given status for both requests, the given project measures and files.
\<close>

definition demo_sonar_env :: "jval option \<Rightarrow> measure list \<Rightarrow> component list \<Rightarrow> sonar_env" where
  "demo_sonar_env status ms components = \<lparr>
     resp_analyses = Response [],
     resp_quality_gate = (\<lambda>n. Response (case status of Some s \<Rightarrow> [''status'' \<mapsto> s] | None \<Rightarrow> Map.empty)),
     resp_measures = Response ms,
     resp_components = Response components\<rparr>"

definition demo_sonar_args :: sonar_args where
  "demo_sonar_args = \<lparr>sproject = ''griswaldbrooks_sonarcloud-cpp-minimal'',
                       sorganization = ''griswaldbrooks'', scomponent = None\<rparr>"

definition demo_coverage :: "string \<Rightarrow> measure list" where
  "demo_coverage c = [\<lparr>metric = ''coverage'', mvalue = Some c\<rparr>, \<lparr>metric = ''bugs'', mvalue = Some ''0''\<rparr>]"

definition demo_file :: "string \<Rightarrow> string option \<Rightarrow> component" where
  "demo_file p cov =
     \<lparr>path = Some p,
      cmeasures = (case cov of
                     Some c \<Rightarrow> [\<lparr>metric = ''coverage'', mvalue = Some c\<rparr>,
                                \<lparr>metric = ''lines_to_cover'', mvalue = Some ''10''\<rparr>,
                                \<lparr>metric = ''uncovered_lines'', mvalue = Some ''2''\<rparr>]
                   | None \<Rightarrow> [])\<rparr>"


text \<open>The report expected for a project without files, given its quality gate line and coverage line.\<close>

definition demo_sonar_lines :: "string \<Rightarrow> string \<Rightarrow> string list" where
  "demo_sonar_lines gate_line cov_line =
     [rule_eq, ''SonarCloud Status Check'', rule_eq,
      ''Project: griswaldbrooks_sonarcloud-cpp-minimal'', '''',
      gate_line, '''',
      ''Project Metrics:'', rule_dash, cov_line,
      ''  Bugs: '' @ ICON_OK @ '' 0'', ''  Vulnerabilities: '' @ ICON_OK @ '' 0'',
      ''  Code Smells: 0'', ''  Security Hotspots: 0'', ''  Lines of Code: 0'', '''',
      ''No files found in analysis'', '''', rule_eq]"


text \<open>Five files in fetch order, three with a coverage value and two without, and their lines.\<close>

definition demo_files :: "component list" where
  "demo_files = [demo_file ''src/a.cpp'' (Some ''59.9''), demo_file ''src/b.cpp'' (Some ''80.0''),
                 demo_file ''README'' None, demo_file ''README.md'' None,
                 demo_file ''src/c.cpp'' (Some ''79.9'')]"

definition demo_files_with :: "string list" where
  "demo_files_with =
     [''  '' @ ICON_FAIL @ '' src/a.cpp: 59.9% (10 lines, 2 uncovered)'',
      ''  '' @ ICON_OK @ '' src/b.cpp: 80.0% (10 lines, 2 uncovered)'',
      ''  '' @ ICON_WARN @ '' src/c.cpp: 79.9% (10 lines, 2 uncovered)'']"

definition demo_files_without :: "string list" where
  "demo_files_without =
     [''  '' @ ICON_FAIL @ '' README: No coverage data'',
      ''  '' @ ICON_FAIL @ '' README.md: No coverage data'']"


section \<open>Properties of the combined checker\<close>


lemma passed_msg_not_rule: "ICON_OK @ '' All checks passed!'' \<noteq> rule_eq"
  by (simp add: ICON_OK_def rule_eq_def numeral_eq_Suc)

lemma passed_msg_not_failed: "ICON_OK @ '' All checks passed!'' \<noteq> ICON_FAIL @ '' Some checks failed!''"
  by (simp add: ICON_OK_def ICON_FAIL_def)

text \<open>
  C3. With neither skip flag set, both sub-checks are started, the second whatever the
  first returned; the exit code is 0 and the message "All checks passed!" is printed exactly
  when both collected exit codes are 0; otherwise the tool prints one PASSED/FAILED line per
  sub-check and exits with 1.
\<close>

theorem combined_no_skip:
  assumes "\<not> skip_ci a" and "\<not> skip_sonarcloud a"
  shows "let ci = exit_of sp (ci_argv tool a); so = exit_of sp (sonar_argv tool a);
             (code, w) = status_main sp tool a
         in spawned w = [ci_argv tool a, sonar_argv tool a]
          \<and> code = Some (if ci = 0 \<and> so = 0 then 0 else 1)
          \<and> (ICON_OK @ '' All checks passed!'' \<in> set (out w)) = (ci = 0 \<and> so = 0)
          \<and> out w = [rule_eq, ''PROJECT STATUS CHECK'', rule_eq, ''Project: '' @ project a, rule_eq,
                      [CHR 0x0A], rule_eq, ''  GITHUB ACTIONS CI'', rule_eq,
                      [CHR 0x0A], rule_eq, ''  SONARCLOUD ANALYSIS'', rule_eq,
                      [CHR 0x0A], rule_eq, ''OVERALL STATUS'', rule_eq]
                   @ (if ci = 0 \<and> so = 0
                      then [ICON_OK @ '' All checks passed!'', '''', rule_eq]
                      else [ICON_FAIL @ '' Some checks failed!'', '''',
                            ''  CI: '' @ (if ci = 0 then PASSED else FAILED),
                            ''  SonarCloud: '' @ (if so = 0 then PASSED else FAILED),
                            '''', rule_eq])"
proof -
  obtain code w where cw: "status_main sp tool a = (code, w)" by (cases "status_main sp tool a")
  define ci where "ci = exit_of sp (ci_argv tool a)"
  define so where "so = exit_of sp (sonar_argv tool a)"
  have sp: "spawned w = [ci_argv tool a, sonar_argv tool a]"
    using assms cw
    by (auto simp: status_main_def check_ci_def check_sonarcloud_def run_tool_def summary_failed_def
       ci_argv_def sonar_argv_def world0_def py_print_def print_section_header_def Let_def
       split: sum.splits prod.splits if_splits)
  have code: "code = Some (if ci = 0 \<and> so = 0 then 0 else 1)"
    using assms cw unfolding ci_def so_def
    by (auto simp: status_main_def check_ci_def check_sonarcloud_def run_tool_def summary_failed_def
       exit_of_def ci_argv_def sonar_argv_def Let_def
       split: sum.splits prod.splits if_splits)
  have outw: "out w = [rule_eq, ''PROJECT STATUS CHECK'', rule_eq, ''Project: '' @ project a, rule_eq,
                      [CHR 0x0A], rule_eq, ''  GITHUB ACTIONS CI'', rule_eq,
                      [CHR 0x0A], rule_eq, ''  SONARCLOUD ANALYSIS'', rule_eq,
                      [CHR 0x0A], rule_eq, ''OVERALL STATUS'', rule_eq]
                   @ (if ci = 0 \<and> so = 0
                      then [ICON_OK @ '' All checks passed!'', '''', rule_eq]
                      else [ICON_FAIL @ '' Some checks failed!'', '''',
                            ''  CI: '' @ (if ci = 0 then PASSED else FAILED),
                            ''  SonarCloud: '' @ (if so = 0 then PASSED else FAILED),
                            '''', rule_eq])"
    using assms cw unfolding ci_def so_def
    by (auto simp: status_main_def check_ci_def check_sonarcloud_def run_tool_def summary_failed_def
       exit_of_def ci_argv_def sonar_argv_def world0_def py_print_def print_section_header_def Let_def
       split: sum.splits prod.splits if_splits)
  have mem: "(ICON_OK @ '' All checks passed!'' \<in> set (out w)) = (ci = 0 \<and> so = 0)"
  proof (cases "ci = 0 \<and> so = 0")
    case True
    then show ?thesis unfolding outw by simp
  next
    case False
    have "ICON_OK @ '' All checks passed!'' \<notin> set (out w)"
      unfolding outw using False passed_msg_not_rule
      by (simp add: ICON_OK_def ICON_FAIL_def)
    then show ?thesis using False by simp
  qed
  show ?thesis
    unfolding cw Let_def prod.case
    using conjI [OF sp conjI [OF code conjI [OF mem outw]]]
    unfolding ci_def so_def .
qed

lemma str_int_5: "str_int 5 = ''5''"
  by code_simp

theorem combined_no_skip_witness:
  "\<not> skip_ci demo_args \<and> \<not> skip_sonarcloud demo_args
   \<and> fst (status_main demo_run demo_tool demo_args) = Some 1
   \<and> spawned (snd (status_main demo_run demo_tool demo_args))
       = [[''python3'', ''tools/ci_check.py'', ''--limit'', ''5''],
          [''python3'', ''tools/sonarcloud_check.py'', ''--project'', ''demo'', ''--organization'', ''org'']]
   \<and> ''  CI: '' @ FAILED \<in> set (out (snd (status_main demo_run demo_tool demo_args)))
   \<and> ''  SonarCloud: '' @ PASSED \<in> set (out (snd (status_main demo_run demo_tool demo_args)))"
  using combined_no_skip [of demo_args demo_run demo_tool]
  by (simp add: demo_args_def demo_run_def demo_tool_def exit_of_def ci_argv_def sonar_argv_def
        str_int_5 Let_def split: prod.splits)

text \<open>
  C10. With both skip flags set no sub-check is started, the list of collected exit codes
  is empty, and the tool prints "All checks passed!" and exits with 0.
\<close>

theorem combined_both_skipped:
  assumes "skip_ci a" and "skip_sonarcloud a"
  shows "fst (check_sonarcloud sp tool a (check_ci sp tool a ([], w))) = []
       \<and> status_main sp tool a =
           (Some 0, \<lparr>out = [rule_eq, ''PROJECT STATUS CHECK'', rule_eq, ''Project: '' @ project a, rule_eq,
                             [CHR 0x0A], rule_eq, ''OVERALL STATUS'', rule_eq,
                             ICON_OK @ '' All checks passed!'', '''', rule_eq],
                      err = [], spawned = []\<rparr>)"
  using assms
  by (simp add: status_main_def check_ci_def check_sonarcloud_def world0_def py_print_def)

theorem combined_both_skipped_witness:
  "skip_ci (demo_args\<lparr>skip_ci := True, skip_sonarcloud := True\<rparr>)
   \<and> skip_sonarcloud (demo_args\<lparr>skip_ci := True, skip_sonarcloud := True\<rparr>)
   \<and> fst (status_main demo_run demo_tool (demo_args\<lparr>skip_ci := True, skip_sonarcloud := True\<rparr>)) = Some 0
   \<and> spawned (snd (status_main demo_run demo_tool (demo_args\<lparr>skip_ci := True, skip_sonarcloud := True\<rparr>))) = []
   \<and> ICON_OK @ '' All checks passed!''
        \<in> set (out (snd (status_main demo_run demo_tool (demo_args\<lparr>skip_ci := True, skip_sonarcloud := True\<rparr>))))"
  using combined_both_skipped [of "demo_args\<lparr>skip_ci := True, skip_sonarcloud := True\<rparr>" demo_run demo_tool world0]
  by (simp add: demo_args_def)


section \<open>Properties of the CI checker\<close>

text \<open>
  C5. For a run whose status is "completed" and whose conclusion is a string, the formatted
  line starts with the success icon and SUCCESS for "success", the failure icon and FAILED
  for "failure", the warning icon and CANCELLED or SKIPPED for "cancelled" and "skipped",
  and for every other string with the unknown marker followed by the conclusion in upper
  case; the formatter returns a line (it does not raise) in each of these cases.
\<close>

theorem format_run_status_completed:
  assumes "run ''status'' = Some (JStr ''completed'')"
    and "dict_get run ''conclusion'' (JStr ''unknown'') = JStr c"
  shows "\<exists>rest. format_run_status L run =
           Inr ((if c = ''success'' then ICON_OK @ '' SUCCESS''
                 else if c = ''failure'' then ICON_FAIL @ '' FAILED''
                 else if c = ''cancelled'' then ICON_WARN @ '' CANCELLED''
                 else if c = ''skipped'' then ICON_WARN @ '' SKIPPED''
                 else ICON_UNKNOWN @ '' '' @ upper L c) @ '' - '' @ rest)"
  using assms
  by (simp add: format_run_status_def status_icon_text_def dict_get_def Let_def)

lemma demo_run2_fields:
  "demo_run2 ''status'' = Some (JStr ''completed'')"
  "dict_get demo_run2 ''conclusion'' (JStr ''unknown'') = JStr ''timed_out''"
  by (simp_all add: demo_run2_def dict_get_def)

lemma demo_upper: "upper demo_lib ''timed_out'' = ''TIMED_OUT''"
  by code_simp

theorem format_run_status_completed_witness:
  "demo_run2 ''status'' = Some (JStr ''completed'')
   \<and> dict_get demo_run2 ''conclusion'' (JStr ''unknown'') = JStr ''timed_out''
   \<and> (\<exists>rest. format_run_status demo_lib demo_run2 = Inr (ICON_UNKNOWN @ '' TIMED_OUT - '' @ rest))"
  using format_run_status_completed [OF demo_run2_fields, of demo_lib] demo_run2_fields
  by (simp add: demo_upper)

lemma runs_loop_counts:
  "runs_loop L runs (ls, s, f, k) = Inr (ls', s', f', k') \<Longrightarrow>
     s' = s + length (filter (\<lambda>r. dict_get r ''conclusion'' (JStr '''') = JStr ''success'') runs)
   \<and> f' = f + length (filter (\<lambda>r. dict_get r ''conclusion'' (JStr '''') = JStr ''failure'') runs)
   \<and> k' = k + length (filter (\<lambda>r. dict_get r ''conclusion'' (JStr '''') \<noteq> JStr ''success''
                                  \<and> dict_get r ''conclusion'' (JStr '''') \<noteq> JStr ''failure'') runs)
   \<and> length ls' = length ls + length runs"
proof (induction runs arbitrary: ls s f k)
  case Nil
  then show ?case by simp
next
  case (Cons r runs)
  from Cons.prems obtain line where line: "format_run_status L r = Inr line"
    by (cases "format_run_status L r") auto
  show ?case
  proof (cases "dict_get r ''conclusion'' (JStr '''') = JStr ''success''")
    case True
    with Cons.prems line have "runs_loop L runs (ls @ [line], s + 1, f, k) = Inr (ls', s', f', k')"
      by (simp add: Let_def)
    from Cons.IH [OF this] True show ?thesis by simp
  next
    case nsucc: False
    show ?thesis
    proof (cases "dict_get r ''conclusion'' (JStr '''') = JStr ''failure''")
      case True
      with Cons.prems line nsucc have "runs_loop L runs (ls @ [line], s, f + 1, k) = Inr (ls', s', f', k')"
        by (simp add: Let_def)
      from Cons.IH [OF this] True show ?thesis by simp
    next
      case False
      with Cons.prems line nsucc have "runs_loop L runs (ls @ [line], s, f, k + 1) = Inr (ls', s', f', k')"
        by (simp add: Let_def)
      from Cons.IH [OF this] False nsucc show ?thesis by simp
    qed
  qed
qed

lemma three_way_count:
  "length (filter (\<lambda>x. g x = a) xs) + length (filter (\<lambda>x. g x = b) xs)
     + length (filter (\<lambda>x. g x \<noteq> a \<and> g x \<noteq> b) xs) = length xs" if "a \<noteq> b"
  using that by (induction xs) auto

lemma ci_report_lines_nonempty:
  assumes "gh (gh_cmd lmt wfl) = Returned runs" and "runs \<noteq> []"
  shows "ci_report_lines L gh repo_owner repo_name lmt wfl =
           (case runs_loop L runs
                   (ci_header repo_owner repo_name wfl
                    @ [''Recent Runs (showing '' @ str_nat (length runs) @ ''):'', rule_dash], 0, 0, 0) of
              Inl e \<Rightarrow> (Inl e, [])
            | Inr (lines1, success_count, failure_count, other_count) \<Rightarrow>
                (Inr (lines1 @ ['''', ''Summary:'', rule_dash,
                                ''  Successful: '' @ str_nat success_count,
                                ''  Failed: '' @ str_nat failure_count,
                                ''  Other: '' @ str_nat other_count,
                                '''', rule_eq]), []))"
  using assms by (simp add: ci_report_lines_def get_workflow_runs_gh_def)

text \<open>
  C6. Whenever the report lists runs, its summary prints three counts that add up to the
  number of runs fetched, which is also the number of run entries displayed: the successful
  and the failed counts are the numbers of runs whose conclusion is "success" and "failure",
  and every other run is counted as other.
\<close>

theorem summary_counts_sum:
  assumes "ci_report_lines L gh repo_owner repo_name lmt wfl = (Inr ls, errs)"
    and "gh (gh_cmd lmt wfl) = Returned runs"
    and "runs \<noteq> []"
  shows "\<exists>body s f k.
           ls = body @ ['''', ''Summary:'', rule_dash,
                        ''  Successful: '' @ str_nat s, ''  Failed: '' @ str_nat f, ''  Other: '' @ str_nat k,
                        '''', rule_eq]
         \<and> s + f + k = length runs
         \<and> s = length (filter (\<lambda>r. dict_get r ''conclusion'' (JStr '''') = JStr ''success'') runs)
         \<and> f = length (filter (\<lambda>r. dict_get r ''conclusion'' (JStr '''') = JStr ''failure'') runs)
         \<and> length body = length (ci_header repo_owner repo_name wfl) + 2 + length runs"
proof -
  let ?init = "ci_header repo_owner repo_name wfl
                 @ [''Recent Runs (showing '' @ str_nat (length runs) @ ''):'', rule_dash]"
  note eq = assms(1) [unfolded ci_report_lines_nonempty [where gh = gh and lmt = lmt and wfl = wfl and runs = runs, OF assms(2,3)]]
  show ?thesis
  proof (cases "runs_loop L runs (?init, 0, 0, 0)")
    case (Inl e)
    with eq show ?thesis by simp
  next
    case (Inr t)
    obtain body s f k where t: "t = (body, s, f, k)" by (cases t) auto
    from eq Inr t have ls: "ls = body @ ['''', ''Summary:'', rule_dash,
                        ''  Successful: '' @ str_nat s, ''  Failed: '' @ str_nat f, ''  Other: '' @ str_nat k,
                        '''', rule_eq]"
      by simp
    note c = runs_loop_counts [OF Inr [unfolded t]]
    have sum: "s + f + k = length runs"
      using c three_way_count [of "JStr ''success''" "JStr ''failure''" "\<lambda>r. dict_get r ''conclusion'' (JStr '''')" runs]
      by simp
    have len: "length body = length (ci_header repo_owner repo_name wfl) + 2 + length runs"
      using c by simp
    show ?thesis
    proof (intro exI conjI)
      show "ls = body @ ['''', ''Summary:'', rule_dash,
                        ''  Successful: '' @ str_nat s, ''  Failed: '' @ str_nat f, ''  Other: '' @ str_nat k,
                        '''', rule_eq]" by (rule ls)
      show "s + f + k = length runs" by (rule sum)
      show "s = length (filter (\<lambda>r. dict_get r ''conclusion'' (JStr '''') = JStr ''success'') runs)"
        using c by simp
      show "f = length (filter (\<lambda>r. dict_get r ''conclusion'' (JStr '''') = JStr ''failure'') runs)"
        using c by simp
      show "length body = length (ci_header repo_owner repo_name wfl) + 2 + length runs" by (rule len)
    qed
  qed
qed

lemma demo_report_eval:
  "ci_report_lines demo_lib demo_gh ''griswaldbrooks'' ''sonarcloud-cpp-minimal'' 5 None
     = (Inr demo_report_lines, [])"
  by code_simp

lemma demo_gh_eval: "demo_gh (gh_cmd 5 None) = Returned [demo_run1, demo_run2, demo_run3]"
  by (simp add: demo_gh_def)

lemma demo_runs_nonempty: "[demo_run1, demo_run2, demo_run3] \<noteq> []"
  by simp

theorem summary_counts_sum_witness:
  "ci_report_lines demo_lib demo_gh ''griswaldbrooks'' ''sonarcloud-cpp-minimal'' 5 None
     = (Inr demo_report_lines, [])
   \<and> demo_gh (gh_cmd 5 None) = Returned [demo_run1, demo_run2, demo_run3]
   \<and> [demo_run1, demo_run2, demo_run3] \<noteq> []
   \<and> (\<exists>body s f k.
           demo_report_lines = body @ ['''', ''Summary:'', rule_dash,
                        ''  Successful: '' @ str_nat s, ''  Failed: '' @ str_nat f, ''  Other: '' @ str_nat k,
                        '''', rule_eq]
         \<and> s + f + k = length [demo_run1, demo_run2, demo_run3]
         \<and> s = length (filter (\<lambda>r. dict_get r ''conclusion'' (JStr '''') = JStr ''success'')
                          [demo_run1, demo_run2, demo_run3])
         \<and> f = length (filter (\<lambda>r. dict_get r ''conclusion'' (JStr '''') = JStr ''failure'')
                          [demo_run1, demo_run2, demo_run3])
         \<and> length body = length (ci_header ''griswaldbrooks'' ''sonarcloud-cpp-minimal'' None) + 2
                            + length [demo_run1, demo_run2, demo_run3])"
  by (intro conjI demo_report_eval demo_gh_eval demo_runs_nonempty
        summary_counts_sum [OF demo_report_eval demo_gh_eval demo_runs_nonempty])

text \<open>
  C7. When the fetch returns an empty list, the report is the heading followed by the line
  "No workflow runs found.", and \<open>main\<close>, whose own fetch of the latest run is empty as
  well, exits with 0.
\<close>

theorem no_runs_found:
  assumes "detect_repo (git_remote env) = (Inr (repo_owner, repo_name), errs)"
    and "check_gh_cli (gh_version env)"
    and "gh_run_list env 0 (gh_cmd (limit a) (workflow a)) = Returned []"
    and "gh_run_list env 1 (gh_cmd 1 (workflow a)) = Returned []"
  shows "ci_report_lines L (gh_run_list env 0) repo_owner repo_name (limit a) (workflow a)
           = (Inr (ci_header repo_owner repo_name (workflow a)
                   @ [''No workflow runs found.'', '''', rule_eq]), [])
       \<and> ci_main L env a
           = (0, [join_lines (ci_header repo_owner repo_name (workflow a)
                              @ [''No workflow runs found.'', '''', rule_eq])], errs)"
  using assms
  by (simp add: ci_main_def ci_report_def ci_report_lines_def get_workflow_runs_gh_def)

lemma demo_detect:
  "detect_repo (git_remote (demo_ci_env ''git@github.com:griswaldbrooks/sonarcloud-cpp-minimal.git'' [] []))
     = (Inr (''griswaldbrooks'', ''sonarcloud-cpp-minimal''), [])"
  by code_simp

lemma demo_no_runs:
  "check_gh_cli (gh_version (demo_ci_env remote [] []))"
  "gh_run_list (demo_ci_env remote [] []) 0 (gh_cmd (limit demo_ci_args) (workflow demo_ci_args)) = Returned []"
  "gh_run_list (demo_ci_env remote [] []) 1 (gh_cmd 1 (workflow demo_ci_args)) = Returned []"
  by (simp_all add: demo_ci_env_def check_gh_cli_def)

theorem no_runs_found_witness:
  "detect_repo (git_remote (demo_ci_env ''git@github.com:griswaldbrooks/sonarcloud-cpp-minimal.git'' [] []))
     = (Inr (''griswaldbrooks'', ''sonarcloud-cpp-minimal''), [])
   \<and> check_gh_cli (gh_version (demo_ci_env ''git@github.com:griswaldbrooks/sonarcloud-cpp-minimal.git'' [] []))
   \<and> fst (ci_main demo_lib (demo_ci_env ''git@github.com:griswaldbrooks/sonarcloud-cpp-minimal.git'' [] [])
             demo_ci_args) = 0
   \<and> fst (snd (ci_main demo_lib (demo_ci_env ''git@github.com:griswaldbrooks/sonarcloud-cpp-minimal.git'' [] [])
             demo_ci_args))
       = [join_lines [rule_eq, ''GitHub Actions CI Status'', rule_eq,
                      ''Repository: griswaldbrooks/sonarcloud-cpp-minimal'', '''',
                      ''No workflow runs found.'', '''', rule_eq]]"
  using no_runs_found [OF demo_detect demo_no_runs, of demo_lib] demo_detect demo_no_runs(1)
  by (simp add: ci_header_def demo_ci_args_def)

lemma py_replace_char_absent: "c \<notin> set s \<Longrightarrow> py_replace [c] new s = s"
  by (induction s) auto

lemma py_replace_trailing_char: "c \<notin> set t \<Longrightarrow> py_replace [c] new (t @ [c]) = t @ new"
  by (induction t) auto

lemma format_run_status_time:
  assumes "status_icon_text L (dict_get run ''status'' (JStr ''unknown''))
             (dict_get run ''conclusion'' (JStr ''unknown'')) = Inr (icon, txt)"
  shows "\<exists>mid. format_run_status L run =
           Inr (icon @ '' '' @ txt @ mid @ '' | Time: ''
                @ format_timestamp L ''%Y-%m-%d %H:%M:%S'' (dict_get run ''createdAt'' (JStr '''')))"
proof -
  let ?mid = "'' - '' @ py_str (dict_get run ''name'' (JStr ''Unknown'')) @ '' (#''
              @ py_str (dict_get run ''databaseId'' (JStr ''?'')) @ '')'' @ [CHR 0x0A] @ ''   Branch: ''
              @ py_str (dict_get run ''headBranch'' (JStr ''unknown'')) @ '' | Event: ''
              @ py_str (dict_get run ''event'' (JStr ''unknown''))"
  have "format_run_status L run =
           Inr (icon @ '' '' @ txt @ ?mid @ '' | Time: ''
                @ format_timestamp L ''%Y-%m-%d %H:%M:%S'' (dict_get run ''createdAt'' (JStr '''')))"
    using assms by (simp add: format_run_status_def Let_def)
  then show ?thesis
    by (rule exI [of _ "'' - '' @ py_str (dict_get run ''name'' (JStr ''Unknown'')) @ '' (#''
              @ py_str (dict_get run ''databaseId'' (JStr ''?'')) @ '')'' @ [CHR 0x0A] @ ''   Branch: ''
              @ py_str (dict_get run ''headBranch'' (JStr ''unknown'')) @ '' | Event: ''
              @ py_str (dict_get run ''event'' (JStr ''unknown''))"])
qed

text \<open>
  C8. A timestamp string is handed to the ISO-8601 parser after \<open>Z\<close> is replaced by
  \<open>+00:00\<close> (for a string whose only \<open>Z\<close> is the trailing one this turns the UTC
  designator into an offset); when it parses, the report shows the reformatted time; when it
  does not parse, the report shows the original string; in both tools the line is produced
  whatever the timestamp is, so a malformed timestamp never ends the report.
\<close>

theorem timestamp_reformatted_or_verbatim:
  "(CHR ''Z'' \<notin> set t \<longrightarrow> py_replace ''Z'' ''+00:00'' (t @ ''Z'') = t @ ''+00:00'')
   \<and> (fromisoformat L (py_replace ''Z'' ''+00:00'' s) = Some dt \<longrightarrow> strftime L dt fmt = Some r
        \<longrightarrow> format_timestamp L fmt (JStr s) = r)
   \<and> (fromisoformat L (py_replace ''Z'' ''+00:00'' u) = None \<longrightarrow> format_timestamp L fmt (JStr u) = u)
   \<and> (status_icon_text L (dict_get run ''status'' (JStr ''unknown''))
          (dict_get run ''conclusion'' (JStr ''unknown'')) = Inr (icon, txt)
        \<longrightarrow> (\<exists>mid. format_run_status L run =
               Inr (icon @ '' '' @ txt @ mid @ '' | Time: ''
                    @ format_timestamp L ''%Y-%m-%d %H:%M:%S'' (dict_get run ''createdAt'' (JStr '''')))))
   \<and> (a \<noteq> [] \<longrightarrow> map_of (rev a) ''date'' = Some v
        \<longrightarrow> analysis_lines L (Some a)
              = [''Last Analysis: '' @ format_timestamp L ''%Y-%m-%d %H:%M:%S UTC'' v, ''''])"
proof (intro conjI impI)
  assume "CHR ''Z'' \<notin> set t"
  then show "py_replace ''Z'' ''+00:00'' (t @ ''Z'') = t @ ''+00:00''"
    by (rule py_replace_trailing_char)
next
  assume "fromisoformat L (py_replace ''Z'' ''+00:00'' s) = Some dt" and "strftime L dt fmt = Some r"
  then show "format_timestamp L fmt (JStr s) = r"
    by (simp add: format_timestamp_def)
next
  assume "fromisoformat L (py_replace ''Z'' ''+00:00'' u) = None"
  then show "format_timestamp L fmt (JStr u) = u"
    by (simp add: format_timestamp_def)
next
  assume "status_icon_text L (dict_get run ''status'' (JStr ''unknown''))
          (dict_get run ''conclusion'' (JStr ''unknown'')) = Inr (icon, txt)"
  then show "\<exists>mid. format_run_status L run =
               Inr (icon @ '' '' @ txt @ mid @ '' | Time: ''
                    @ format_timestamp L ''%Y-%m-%d %H:%M:%S'' (dict_get run ''createdAt'' (JStr '''')))"
    by (rule format_run_status_time)
next
  assume "a \<noteq> []" and "map_of (rev a) ''date'' = Some v"
  then show "analysis_lines L (Some a)
              = [''Last Analysis: '' @ format_timestamp L ''%Y-%m-%d %H:%M:%S UTC'' v, '''']"
    by (simp add: analysis_lines_def)
qed

lemma demo_ts_eval:
  "CHR ''Z'' \<notin> set ''2024-01-02T03:04:05''"
  "fromisoformat demo_lib (py_replace ''Z'' ''+00:00'' ''2024-01-02T03:04:05Z'') = Some ''2024-01-02T03:04:05+00:00''"
  "strftime demo_lib ''2024-01-02T03:04:05+00:00'' ''%Y-%m-%d %H:%M:%S'' = Some ''2024-01-02 03:04:05''"
  "fromisoformat demo_lib (py_replace ''Z'' ''+00:00'' ''yesterday'') = None"
  "status_icon_text demo_lib (dict_get demo_run2 ''status'' (JStr ''unknown''))
          (dict_get demo_run2 ''conclusion'' (JStr ''unknown'')) = Inr (ICON_UNKNOWN, ''TIMED_OUT'')"
  "dict_get demo_run2 ''createdAt'' (JStr '''') = JStr ''yesterday''"
  "[(''key'', JStr ''AY''), (''date'', JStr ''yesterday'')] \<noteq> []"
  "map_of (rev [(''key'', JStr ''AY''), (''date'', JStr ''yesterday'')]) ''date'' = Some (JStr ''yesterday'')"
  by (code_simp, code_simp, code_simp, code_simp, code_simp, code_simp, code_simp, code_simp)

theorem timestamp_reformatted_or_verbatim_witness:
  "CHR ''Z'' \<notin> set ''2024-01-02T03:04:05''
   \<and> py_replace ''Z'' ''+00:00'' (''2024-01-02T03:04:05'' @ ''Z'') = ''2024-01-02T03:04:05'' @ ''+00:00''
   \<and> fromisoformat demo_lib (py_replace ''Z'' ''+00:00'' ''2024-01-02T03:04:05Z'') = Some ''2024-01-02T03:04:05+00:00''
   \<and> strftime demo_lib ''2024-01-02T03:04:05+00:00'' ''%Y-%m-%d %H:%M:%S'' = Some ''2024-01-02 03:04:05''
   \<and> format_timestamp demo_lib ''%Y-%m-%d %H:%M:%S'' (JStr ''2024-01-02T03:04:05Z'') = ''2024-01-02 03:04:05''
   \<and> fromisoformat demo_lib (py_replace ''Z'' ''+00:00'' ''yesterday'') = None
   \<and> format_timestamp demo_lib ''%Y-%m-%d %H:%M:%S'' (JStr ''yesterday'') = ''yesterday''
   \<and> (\<exists>mid. format_run_status demo_lib demo_run2 =
          Inr (ICON_UNKNOWN @ '' '' @ ''TIMED_OUT'' @ mid @ '' | Time: ''
               @ format_timestamp demo_lib ''%Y-%m-%d %H:%M:%S'' (dict_get demo_run2 ''createdAt'' (JStr ''''))))
   \<and> analysis_lines demo_lib (Some [(''key'', JStr ''AY''), (''date'', JStr ''yesterday'')])
       = [''Last Analysis: '' @ format_timestamp demo_lib ''%Y-%m-%d %H:%M:%S UTC'' (JStr ''yesterday''), '''']"
proof -
  note T = timestamp_reformatted_or_verbatim
          [of "''2024-01-02T03:04:05''" demo_lib "''2024-01-02T03:04:05Z''" "''2024-01-02T03:04:05+00:00''"
              "''%Y-%m-%d %H:%M:%S''" "''2024-01-02 03:04:05''" "''yesterday''" demo_run2 ICON_UNKNOWN
              "''TIMED_OUT''" "[(''key'', JStr ''AY''), (''date'', JStr ''yesterday'')]" "JStr ''yesterday''"]
  note q1 = T [THEN conjunct1, THEN mp, OF demo_ts_eval(1)]
  note q2 = T [THEN conjunct2, THEN conjunct1, THEN mp, THEN mp, OF demo_ts_eval(2) demo_ts_eval(3)]
  note q3 = T [THEN conjunct2, THEN conjunct2, THEN conjunct1, THEN mp, OF demo_ts_eval(4)]
  note q4 = T [THEN conjunct2, THEN conjunct2, THEN conjunct2, THEN conjunct1, THEN mp, OF demo_ts_eval(5)]
  note q5 = T [THEN conjunct2, THEN conjunct2, THEN conjunct2, THEN conjunct2, THEN mp, THEN mp,
               OF demo_ts_eval(7) demo_ts_eval(8)]
  show ?thesis
    by (intro conjI demo_ts_eval(1) q1 demo_ts_eval(2) demo_ts_eval(3) q2 demo_ts_eval(4) q3 q4 q5)
qed

lemma split_from_no_sep:
  "c \<notin> set cur \<Longrightarrow> \<forall>p \<in> set (split_from [c] cur s). c \<notin> set p"
proof (induction s arbitrary: cur)
  case Nil
  then show ?case by simp
next
  case (Cons x s)
  show ?case
  proof (cases "c = x")
    case True
    with Cons.IH [of "[]"] Cons.prems show ?thesis by simp
  next
    case False
    with Cons.IH [of "cur @ [x]"] Cons.prems show ?thesis by simp
  qed
qed

lemma py_split_no_sep: "p \<in> set (py_split [c] s) \<Longrightarrow> c \<notin> set p"
  unfolding py_split_def using split_from_no_sep [of c "[]" s] by simp

lemma repo_parts_no_slash:
  assumes "repo_parts u = Inr parts" and "p \<in> set parts"
  shows "CHR ''/'' \<notin> set p"
proof (cases "prefix ''git@github.com:'' u")
  case True
  with assms(1) have "parts = py_split ''/'' (py_replace ''.git'' '''' (py_replace ''git@github.com:'' '''' u))"
    by (simp add: repo_parts_def)
  with assms(2) show ?thesis by (simp add: py_split_no_sep)
next
  case False
  with assms(1) have "parts = py_split ''/'' (py_replace ''.git'' '''' (last (py_split ''github.com/'' u)))"
    by (simp add: repo_parts_def split: if_splits)
  with assms(2) show ?thesis by (simp add: py_split_no_sep)
qed

lemma repo_parts_error: "repo_parts u = Inl e \<Longrightarrow> e = ValueError ''Cannot parse GitHub URL''"
  by (simp add: repo_parts_def split: if_splits)

lemma detect_repo_returned:
  "detect_repo (Returned outp) =
     (if \<not> py_in ''github.com'' (py_strip outp) then detect_failed ''Not a GitHub repository''
      else case repo_parts (py_strip outp) of
             Inl e \<Rightarrow> detect_failed ''Cannot parse GitHub URL''
           | Inr parts \<Rightarrow>
               if 1 < length parts then (Inr (parts ! 0, parts ! 1), []) else (Inl IndexError, []))"
proof (cases "repo_parts (py_strip outp)")
  case (Inl e)
  with repo_parts_error [OF Inl] show ?thesis
    by (simp add: detect_repo_def parse_remote_def)
next
  case (Inr parts)
  then show ?thesis
    by (simp add: detect_repo_def parse_remote_def)
qed

lemma fst_detect_failed: "fst (detect_failed m) = Inl (SystemExit 1)"
  by (simp add: detect_failed_def)

lemma detect_repo_pair_iff:
  "(fst (detect_repo g) = Inr (repo_owner, repo_name)) =
     (\<exists>outp parts. g = Returned outp \<and> py_in ''github.com'' (py_strip outp)
        \<and> repo_parts (py_strip outp) = Inr parts \<and> 2 \<le> length parts
        \<and> repo_owner = parts ! 0 \<and> repo_name = parts ! 1)"
proof (cases g)
  case (Returned outp)
  show ?thesis
  proof (cases "repo_parts (py_strip outp)")
    case (Inl e)
    then show ?thesis
      unfolding Returned detect_repo_returned by (simp add: fst_detect_failed)
  next
    case (Inr parts)
    then show ?thesis
      unfolding Returned detect_repo_returned by (auto simp: fst_detect_failed)
  qed
next
  case (CalledProcessError e)
  then show ?thesis by (simp add: detect_repo_def fst_detect_failed)
next
  case (FileNotFoundError e)
  then show ?thesis by (simp add: detect_repo_def)
qed

lemma detect_repo_exit:
  assumes "fst (detect_repo g) = Inl e"
  shows "exit_code_of e = 1"
proof (cases g)
  case (Returned outp)
  show ?thesis
  proof (cases "repo_parts (py_strip outp)")
    case (Inl e')
    with assms show ?thesis
      unfolding Returned detect_repo_returned by (auto simp: fst_detect_failed split: if_splits)
  next
    case (Inr parts)
    with assms show ?thesis
      unfolding Returned detect_repo_returned by (auto simp: fst_detect_failed split: if_splits)
  qed
next
  case (CalledProcessError m)
  with assms show ?thesis by (auto simp: detect_repo_def fst_detect_failed)
next
  case (FileNotFoundError m)
  with assms show ?thesis by (auto simp: detect_repo_def)
qed

lemma ci_main_no_pair:
  assumes "\<forall>p. fst (detect_repo (git_remote env)) \<noteq> Inr p"
  shows "fst (ci_main L env a) = 1 \<and> fst (snd (ci_main L env a)) = []"
proof -
  obtain r errs where d: "detect_repo (git_remote env) = (r, errs)"
    by (cases "detect_repo (git_remote env)")
  with assms obtain e where e: "r = Inl e" by (cases r) auto
  from d e have "exit_code_of e = 1" by (intro detect_repo_exit [of "git_remote env"]) simp
  with d e show ?thesis by (simp add: ci_main_def)
qed

text \<open>
  C9. \<open>_detect_repo\<close> yields an owner/repository pair exactly when git printed a remote
  URL that, stripped of surrounding white space, contains \<open>github.com\<close>, starts with
  \<open>git@github.com:\<close> or contains \<open>github.com/\<close>, and whose remainder, with every
  \<open>.git\<close> removed, splits at \<open>/\<close> into at least two parts; the pair is made of the
  first two parts, neither of which contains a \<open>/\<close>, and further parts are ignored. When
  git fails, when the URL does not contain \<open>github.com\<close>, or when it has neither of the
  two forms, the two error lines are written and the tool leaves through \<open>sys.exit(1)\<close>.
  Whenever no pair is produced \<open>main\<close> ends with exit code 1 and prints no report.
\<close>

theorem detect_repo_outcome:
  "((fst (detect_repo g) = Inr (repo_owner, repo_name)) =
      (\<exists>outp parts. g = Returned outp \<and> py_in ''github.com'' (py_strip outp)
         \<and> repo_parts (py_strip outp) = Inr parts \<and> 2 \<le> length parts
         \<and> repo_owner = parts ! 0 \<and> repo_name = parts ! 1))
   \<and> (fst (detect_repo g) = Inr (repo_owner, repo_name)
        \<longrightarrow> CHR ''/'' \<notin> set repo_owner \<and> CHR ''/'' \<notin> set repo_name)
   \<and> detect_repo (CalledProcessError m) = detect_failed m
   \<and> (\<not> py_in ''github.com'' (py_strip url_other)
        \<longrightarrow> detect_repo (Returned url_other) = detect_failed ''Not a GitHub repository'')
   \<and> (py_in ''github.com'' (py_strip url_odd) \<longrightarrow> \<not> prefix ''git@github.com:'' (py_strip url_odd)
        \<longrightarrow> \<not> py_in ''github.com/'' (py_strip url_odd)
        \<longrightarrow> detect_repo (Returned url_odd) = detect_failed ''Cannot parse GitHub URL'')
   \<and> fst (detect_failed m) = Inl (SystemExit 1)
   \<and> ((\<forall>p. fst (detect_repo (git_remote env)) \<noteq> Inr p)
        \<longrightarrow> fst (ci_main L env a) = 1 \<and> fst (snd (ci_main L env a)) = [])"
proof (intro conjI impI)
  show "(fst (detect_repo g) = Inr (repo_owner, repo_name)) =
      (\<exists>outp parts. g = Returned outp \<and> py_in ''github.com'' (py_strip outp)
         \<and> repo_parts (py_strip outp) = Inr parts \<and> 2 \<le> length parts
         \<and> repo_owner = parts ! 0 \<and> repo_name = parts ! 1)"
    by (rule detect_repo_pair_iff)
next
  assume "fst (detect_repo g) = Inr (repo_owner, repo_name)"
  then obtain outp parts where p: "repo_parts (py_strip outp) = Inr parts" "2 \<le> length parts"
      "repo_owner = parts ! 0" "repo_name = parts ! 1"
    unfolding detect_repo_pair_iff by blast
  from p(2) have "parts ! 0 \<in> set parts" "parts ! 1 \<in> set parts"
    by (auto intro!: nth_mem)
  with p(3,4) repo_parts_no_slash [OF p(1)]
  show "CHR ''/'' \<notin> set repo_owner" "CHR ''/'' \<notin> set repo_name" by simp_all
next
  show "detect_repo (CalledProcessError m) = detect_failed m"
    by (simp add: detect_repo_def)
next
  assume "\<not> py_in ''github.com'' (py_strip url_other)"
  then show "detect_repo (Returned url_other) = detect_failed ''Not a GitHub repository''"
    by (simp add: detect_repo_returned)
next
  assume "py_in ''github.com'' (py_strip url_odd)" "\<not> prefix ''git@github.com:'' (py_strip url_odd)"
    "\<not> py_in ''github.com/'' (py_strip url_odd)"
  then show "detect_repo (Returned url_odd) = detect_failed ''Cannot parse GitHub URL''"
    by (simp add: detect_repo_returned repo_parts_def)
next
  show "fst (detect_failed m) = Inl (SystemExit 1)" by (rule fst_detect_failed)
next
  assume "\<forall>p. fst (detect_repo (git_remote env)) \<noteq> Inr p"
  then show "fst (ci_main L env a) = 1" "fst (snd (ci_main L env a)) = []"
    using ci_main_no_pair by blast+
qed

lemma py_strip_unicode:
  "py_strip ([CHR 0xC2, CHR 0xA0] @ ''git@github.com:a/b'' @ [CHR 0xE3, CHR 0x80, CHR 0x80, CHR 0x0A])
     = ''git@github.com:a/b''"
  "detect_repo (Returned ([CHR 0xC2, CHR 0xA0] @ ''git@github.com:a/b'')) = (Inr (''a'', ''b''), [])"
  by (code_simp, code_simp)

lemma demo_detect_ssh:
  "fst (detect_repo (Returned (''git@github.com:griswaldbrooks/sonarcloud-cpp-minimal.git'' @ [CHR 0x0A])))
     = Inr (''griswaldbrooks'', ''sonarcloud-cpp-minimal'')"
  by code_simp

lemma demo_detect_other_host: "\<not> py_in ''github.com'' (py_strip (''https://gitlab.com/a/b.git'' @ [CHR 0x0A]))"
  by code_simp

lemma demo_detect_no_path:
  "py_in ''github.com'' (py_strip ''ssh://git@github.com:22'')"
  "\<not> prefix ''git@github.com:'' (py_strip ''ssh://git@github.com:22'')"
  "\<not> py_in ''github.com/'' (py_strip ''ssh://git@github.com:22'')"
  by (code_simp, code_simp, code_simp)

lemma demo_detect_gitlab:
  "fst (detect_repo (git_remote (demo_ci_env ''https://gitlab.com/a/b.git'' [] []))) = Inl (SystemExit 1)"
  by code_simp

theorem detect_repo_outcome_witness:
  "fst (detect_repo (Returned (''git@github.com:griswaldbrooks/sonarcloud-cpp-minimal.git'' @ [CHR 0x0A])))
     = Inr (''griswaldbrooks'', ''sonarcloud-cpp-minimal'')
   \<and> (CHR ''/'' \<notin> set ''griswaldbrooks'' \<and> CHR ''/'' \<notin> set ''sonarcloud-cpp-minimal'')
   \<and> \<not> py_in ''github.com'' (py_strip (''https://gitlab.com/a/b.git'' @ [CHR 0x0A]))
   \<and> detect_repo (Returned (''https://gitlab.com/a/b.git'' @ [CHR 0x0A]))
       = detect_failed ''Not a GitHub repository''
   \<and> py_in ''github.com'' (py_strip ''ssh://git@github.com:22'')
   \<and> \<not> prefix ''git@github.com:'' (py_strip ''ssh://git@github.com:22'')
   \<and> \<not> py_in ''github.com/'' (py_strip ''ssh://git@github.com:22'')
   \<and> detect_repo (Returned ''ssh://git@github.com:22'') = detect_failed ''Cannot parse GitHub URL''
   \<and> (\<forall>p. fst (detect_repo (git_remote (demo_ci_env ''https://gitlab.com/a/b.git'' [] []))) \<noteq> Inr p)
   \<and> (fst (ci_main demo_lib (demo_ci_env ''https://gitlab.com/a/b.git'' [] []) demo_ci_args) = 1
        \<and> fst (snd (ci_main demo_lib (demo_ci_env ''https://gitlab.com/a/b.git'' [] []) demo_ci_args)) = [])"
proof -
  note T = detect_repo_outcome
    [where g = "Returned (''git@github.com:griswaldbrooks/sonarcloud-cpp-minimal.git'' @ [CHR 0x0A])"
       and repo_owner = "''griswaldbrooks''" and repo_name = "''sonarcloud-cpp-minimal''"
       and url_other = "''https://gitlab.com/a/b.git'' @ [CHR 0x0A]"
       and url_odd = "''ssh://git@github.com:22''"
       and env = "demo_ci_env ''https://gitlab.com/a/b.git'' [] []"
       and L = demo_lib and a = demo_ci_args]
  have np: "\<forall>p. fst (detect_repo (git_remote (demo_ci_env ''https://gitlab.com/a/b.git'' [] []))) \<noteq> Inr p"
    unfolding demo_detect_gitlab by simp
  note c2 = T [THEN conjunct2, THEN conjunct1, THEN mp, OF demo_detect_ssh]
  note c4 = T [THEN conjunct2, THEN conjunct2, THEN conjunct2, THEN conjunct1, THEN mp,
               OF demo_detect_other_host]
  note c5 = T [THEN conjunct2, THEN conjunct2, THEN conjunct2, THEN conjunct2, THEN conjunct1,
               THEN mp, THEN mp, THEN mp, OF demo_detect_no_path]
  note c7 = T [THEN conjunct2, THEN conjunct2, THEN conjunct2, THEN conjunct2, THEN conjunct2,
               THEN conjunct2, THEN mp, OF np]
  show ?thesis
    by (intro conjI demo_detect_ssh c2 demo_detect_other_host c4 demo_detect_no_path c5 np c7)
qed

text \<open>
  A remote URL with three path segments, and one whose host is not github.com, both give
  a pair.
\<close>

theorem detect_repo_extra_segments_counterexample:
  "py_split ''/'' ''owner/repo/extra'' = [''owner'', ''repo'', ''extra'']
   \<and> detect_repo (Returned (''https://github.com/owner/repo/extra'' @ [CHR 0x0A]))
       = (Inr (''owner'', ''repo''), [])
   \<and> detect_repo (Returned (''https://notgithub.com/owner/repo.git'' @ [CHR 0x0A]))
       = (Inr (''owner'', ''repo''), [])"
  by code_simp


section \<open>Properties of the quality checker\<close>

lemma icons_distinct: "ICON_OK \<noteq> ICON_WARN" "ICON_WARN \<noteq> ICON_FAIL" "ICON_OK \<noteq> ICON_FAIL"
  by (simp_all add: ICON_OK_def ICON_WARN_def ICON_FAIL_def)

lemma coverage_icon_finite:
  "coverage_icon (Finite r) = (if 80 \<le> r then ICON_OK else if 60 \<le> r then ICON_WARN else ICON_FAIL)"
  by (simp add: coverage_icon_def)

lemma coverage_line_present:
  assumes "float_of_str L c = Some cov" and "c \<noteq> ''N/A''" and "pm ''coverage'' = Some c"
  shows "coverage_line L pm = Inr (''  Coverage: '' @ coverage_icon cov @ '' '' @ c @ ''%'')"
  using assms by (simp add: coverage_line_def measures_get_def)

lemma coverage_line_absent:
  "pm ''coverage'' = None \<Longrightarrow> coverage_line L pm = Inr (''  Coverage: '' @ ICON_FAIL @ '' No data'')"
  by (simp add: coverage_line_def measures_get_def)

lemma no_data_not_percent:
  "''  Coverage: '' @ ICON_FAIL @ '' No data'' \<noteq> ''  Coverage: '' @ icon @ '' '' @ c @ ''%''"
proof
  assume "''  Coverage: '' @ ICON_FAIL @ '' No data'' = ''  Coverage: '' @ icon @ '' '' @ c @ ''%''"
  then have "last (''  Coverage: '' @ ICON_FAIL @ '' No data'') = last (''  Coverage: '' @ icon @ '' '' @ c @ ''%'')"
    by (rule arg_cong)
  then show False by simp
qed

lemma metrics_lines_coverage:
  "metrics_lines L pm = Inr ls \<Longrightarrow> \<exists>cl. coverage_line L pm = Inr cl \<and> cl \<in> set ls"
  by (auto simp: metrics_lines_def Let_def split: sum.splits)

lemma api_get_Inr: "api_get r = (Inr d, errs) \<Longrightarrow> r = Response d \<and> errs = []"
  by (auto simp: api_get_def split: http.splits)

lemma api_get_Inl: "api_get r = (Inl e, errs) \<Longrightarrow> e = SystemExit 1"
  by (auto simp: api_get_def split: http.splits)

lemma sonar_report_lines_Inr:
  assumes "sonar_report_lines L env p cfilter = (Inr lines, errs)"
  shows "\<exists>analyses qg ms mlines components dlines.
           resp_analyses env = Response analyses \<and> resp_quality_gate env 0 = Response qg
         \<and> resp_measures env = Response ms \<and> metrics_lines L (project_measures ms) = Inr mlines
         \<and> resp_components env = Response components
         \<and> detail_lines L (coverage_detail components cfilter) = Inr dlines
         \<and> lines = sonar_header p cfilter @ analysis_lines L (recent_analysis analyses)
                    @ gate_lines qg @ mlines @ dlines @ ['''', rule_eq]
         \<and> errs = []"
  using assms
  by (auto simp: sonar_report_lines_def split: prod.splits sum.splits dest!: api_get_Inr)


lemma coverage_line_Inl: "coverage_line L pm = Inl e \<Longrightarrow> exit_code_of e = 1"
  by (auto simp: coverage_line_def Let_def split: if_splits option.splits)

lemma metrics_lines_Inl: "metrics_lines L pm = Inl e \<Longrightarrow> exit_code_of e = 1"
  by (auto simp: metrics_lines_def Let_def coverage_line_Inl split: sum.splits)

lemma file_line_Inl: "file_line L f = Inl e \<Longrightarrow> exit_code_of e = 1"
  by (auto simp: file_line_def Let_def split: option.splits)

lemma files_loop_Inl: "files_loop L fs st = Inl e \<Longrightarrow> exit_code_of e = 1"
proof (induction fs arbitrary: st)
  case Nil
  then show ?case by simp
next
  case (Cons f fs)
  obtain w wo where st: "st = (w, wo)" by (cases st)
  from Cons.prems Cons.IH show ?case
    unfolding st by (auto simp: file_line_Inl split: sum.splits)
qed

lemma detail_lines_Inl: "detail_lines L d = Inl e \<Longrightarrow> exit_code_of e = 1"
  by (auto simp: detail_lines_def files_loop_Inl split: if_splits sum.splits prod.splits)

lemma sonar_report_lines_Inl:
  "sonar_report_lines L env p cfilter = (Inl e, errs) \<Longrightarrow> exit_code_of e = 1"
  by (auto simp: sonar_report_lines_def metrics_lines_Inl detail_lines_Inl
           split: prod.splits sum.splits dest!: api_get_Inl)

lemma sonar_main_error:
  assumes "resp_quality_gate env 1 = Response qg" and "qg ''status'' = Some (JStr ''ERROR'')"
  shows "fst (sonar_main L env a) = 1"
proof (cases "sonar_report_lines L env (sproject a) (scomponent a)")
  case (Pair r errs)
  show ?thesis
  proof (cases r)
    case (Inl e)
    with Pair sonar_report_lines_Inl [of L env "sproject a" "scomponent a" e errs]
    show ?thesis by (simp add: sonar_main_def)
  next
    case (Inr lines)
    with Pair assms show ?thesis by (simp add: sonar_main_def api_get_def Let_def)
  qed
qed

lemma sonar_main_no_error:
  assumes "resp_quality_gate env 1 = Response qg" and "qg ''status'' \<noteq> Some (JStr ''ERROR'')"
    and "sonar_report_lines L env (sproject a) (scomponent a) = (Inr lines, errs)"
  shows "sonar_main L env a = (0, [join_lines lines], errs)"
  using assms by (simp add: sonar_main_def api_get_def Let_def)

lemma gate_line_in_report:
  assumes "resp_quality_gate env 0 = Response qg"
    and "sonar_report_lines L env p cfilter = (Inr lines, errs)"
  shows "''Quality Gate: '' @ gate_icon (dict_get qg ''status'' (JStr ''UNKNOWN'')) @ '' ''
           @ py_str (dict_get qg ''status'' (JStr ''UNKNOWN'')) \<in> set lines"
proof -
  from sonar_report_lines_Inr [OF assms(2)]
  obtain analyses qg' mlines dlines where
        q: "resp_quality_gate env 0 = Response qg'"
    and l: "lines = sonar_header p cfilter @ analysis_lines L (recent_analysis analyses)
                    @ gate_lines qg' @ mlines @ dlines @ ['''', rule_eq]"
    by (elim exE conjE)
  from q assms(1) have "qg' = qg" by simp
  with l have "set (gate_lines qg) \<subseteq> set lines" by auto
  then show ?thesis by (simp add: gate_lines_def Let_def)
qed

lemma coverage_line_in_report:
  assumes "sonar_report_lines L env p cfilter = (Inr lines, errs)"
    and "resp_measures env = Response ms"
  shows "\<exists>cl. coverage_line L (project_measures ms) = Inr cl \<and> cl \<in> set lines"
proof -
  from sonar_report_lines_Inr [OF assms(1)]
  obtain analyses qg ms' mlines dlines where
        r: "resp_measures env = Response ms'"
    and m: "metrics_lines L (project_measures ms') = Inr mlines"
    and l: "lines = sonar_header p cfilter @ analysis_lines L (recent_analysis analyses)
                    @ gate_lines qg @ mlines @ dlines @ ['''', rule_eq]"
    by (elim exE conjE)
  from r assms(2) have ms: "ms' = ms" by simp
  from metrics_lines_coverage [OF m] obtain cl where
    c: "coverage_line L (project_measures ms') = Inr cl" and i: "cl \<in> set mlines" by (elim exE conjE)
  from i l have "cl \<in> set lines" by simp
  with c ms show ?thesis by (intro exI [of _ cl]) simp
qed

text \<open>
  C1. A present coverage value that \<open>float\<close> reads as the number \<open>r\<close> gives the coverage
  line with the icon of its tier: the good icon when \<open>r\<close> is 80 or more, the warning icon
  when \<open>r\<close> is at least 60 and below 80, the poor icon when \<open>r\<close> is below 60. The three
  icons differ. Without a coverage metric the line reads "No data", which no line showing
  a percentage equals. The coverage line is part of every report.
\<close>

theorem coverage_tiers:
  "(float_of_str L c = Some (Finite r) \<longrightarrow> c \<noteq> ''N/A'' \<longrightarrow> pm ''coverage'' = Some c \<longrightarrow>
      coverage_line L pm = Inr (''  Coverage: '' @ coverage_icon (Finite r) @ '' '' @ c @ ''%''))
   \<and> (80 \<le> r \<longrightarrow> coverage_icon (Finite r) = ICON_OK)
   \<and> (60 \<le> r_warn \<longrightarrow> r_warn < 80 \<longrightarrow> coverage_icon (Finite r_warn) = ICON_WARN)
   \<and> (r_poor < 60 \<longrightarrow> coverage_icon (Finite r_poor) = ICON_FAIL)
   \<and> (ICON_OK \<noteq> ICON_WARN \<and> ICON_WARN \<noteq> ICON_FAIL \<and> ICON_OK \<noteq> ICON_FAIL)
   \<and> (pm_none ''coverage'' = None \<longrightarrow>
        coverage_line L pm_none = Inr (''  Coverage: '' @ ICON_FAIL @ '' No data''))
   \<and> ''  Coverage: '' @ ICON_FAIL @ '' No data'' \<noteq> ''  Coverage: '' @ icon @ '' '' @ c @ ''%''
   \<and> (sonar_report_lines L env project_key cfilter = (Inr lines, errs) \<longrightarrow>
        resp_measures env = Response ms \<longrightarrow>
        (\<exists>cl. coverage_line L (project_measures ms) = Inr cl \<and> cl \<in> set lines))"
proof (intro conjI impI)
  assume "float_of_str L c = Some (Finite r)" "c \<noteq> ''N/A''" "pm ''coverage'' = Some c"
  then show "coverage_line L pm = Inr (''  Coverage: '' @ coverage_icon (Finite r) @ '' '' @ c @ ''%'')"
    by (rule coverage_line_present)
next
  assume "80 \<le> r"
  then show "coverage_icon (Finite r) = ICON_OK" by (simp add: coverage_icon_finite)
next
  assume "60 \<le> r_warn" "r_warn < 80"
  then show "coverage_icon (Finite r_warn) = ICON_WARN" by (simp add: coverage_icon_finite)
next
  assume "r_poor < 60"
  then show "coverage_icon (Finite r_poor) = ICON_FAIL" by (simp add: coverage_icon_finite)
next
  show "ICON_OK \<noteq> ICON_WARN" "ICON_WARN \<noteq> ICON_FAIL" "ICON_OK \<noteq> ICON_FAIL"
    by (rule icons_distinct)+
next
  assume "pm_none ''coverage'' = None"
  then show "coverage_line L pm_none = Inr (''  Coverage: '' @ ICON_FAIL @ '' No data'')"
    by (rule coverage_line_absent)
next
  show "''  Coverage: '' @ ICON_FAIL @ '' No data'' \<noteq> ''  Coverage: '' @ icon @ '' '' @ c @ ''%''"
    by (rule no_data_not_percent)
next
  assume "sonar_report_lines L env project_key cfilter = (Inr lines, errs)"
    "resp_measures env = Response ms"
  then show "\<exists>cl. coverage_line L (project_measures ms) = Inr cl \<and> cl \<in> set lines"
    by (rule coverage_line_in_report)
qed

lemma demo_cov_eval:
  "float_of_str demo_lib ''80.0'' = Some (Finite 80)"
  "''80.0'' \<noteq> ''N/A''"
  "project_measures (demo_coverage ''80.0'') ''coverage'' = Some ''80.0''"
  "project_measures [] ''coverage'' = None"
  "resp_measures (demo_sonar_env (Some (JStr ''OK'')) (demo_coverage ''80.0'') []) = Response (demo_coverage ''80.0'')"
  by (code_simp, code_simp, code_simp, code_simp, code_simp)

lemma demo_sonar_report_ok:
  "sonar_report_lines demo_lib (demo_sonar_env (Some (JStr ''OK'')) (demo_coverage ''80.0'') [])
     ''griswaldbrooks_sonarcloud-cpp-minimal'' None
   = (Inr (demo_sonar_lines (''Quality Gate: '' @ ICON_OK @ '' OK'') (''  Coverage: '' @ ICON_OK @ '' 80.0%'')), [])"
  by code_simp

lemma demo_rat_cmp: "(80::rat) \<le> 80" "(60::rat) \<le> 799 / 10" "(799 / 10 :: rat) < 80" "(599 / 10 :: rat) < 60"
  by simp_all

theorem coverage_tiers_witness:
  "float_of_str demo_lib ''80.0'' = Some (Finite 80) \<and> ''80.0'' \<noteq> ''N/A''
   \<and> project_measures (demo_coverage ''80.0'') ''coverage'' = Some ''80.0''
   \<and> coverage_line demo_lib (project_measures (demo_coverage ''80.0''))
        = Inr (''  Coverage: '' @ coverage_icon (Finite 80) @ '' '' @ ''80.0'' @ ''%'')
   \<and> coverage_icon (Finite 80) = ICON_OK
   \<and> coverage_icon (Finite (799 / 10)) = ICON_WARN
   \<and> coverage_icon (Finite (599 / 10)) = ICON_FAIL
   \<and> project_measures [] ''coverage'' = None
   \<and> coverage_line demo_lib (project_measures []) = Inr (''  Coverage: '' @ ICON_FAIL @ '' No data'')
   \<and> (\<exists>cl. coverage_line demo_lib (project_measures (demo_coverage ''80.0'')) = Inr cl
          \<and> cl \<in> set (demo_sonar_lines (''Quality Gate: '' @ ICON_OK @ '' OK'')
                                        (''  Coverage: '' @ ICON_OK @ '' 80.0%'')))"
proof -
  note T = coverage_tiers
    [where L = demo_lib and c = "''80.0''" and r = 80
       and pm = "project_measures (demo_coverage ''80.0'')"
       and r_warn = "799 / 10" and r_poor = "599 / 10"
       and pm_none = "project_measures []"
       and env = "demo_sonar_env (Some (JStr ''OK'')) (demo_coverage ''80.0'') []"
       and project_key = "''griswaldbrooks_sonarcloud-cpp-minimal''" and cfilter = None
       and lines = "demo_sonar_lines (''Quality Gate: '' @ ICON_OK @ '' OK'') (''  Coverage: '' @ ICON_OK @ '' 80.0%'')"
       and errs = "[]" and ms = "demo_coverage ''80.0''"]
  note c1 = T [THEN conjunct1, THEN mp, THEN mp, THEN mp, OF demo_cov_eval(1) demo_cov_eval(2) demo_cov_eval(3)]
  note c2 = T [THEN conjunct2, THEN conjunct1, THEN mp, OF demo_rat_cmp(1)]
  note c3 = T [THEN conjunct2, THEN conjunct2, THEN conjunct1, THEN mp, THEN mp,
               OF demo_rat_cmp(2) demo_rat_cmp(3)]
  note c4 = T [THEN conjunct2, THEN conjunct2, THEN conjunct2, THEN conjunct1, THEN mp,
               OF demo_rat_cmp(4)]
  note c6 = T [THEN conjunct2, THEN conjunct2, THEN conjunct2, THEN conjunct2, THEN conjunct2,
               THEN conjunct1, THEN mp, OF demo_cov_eval(4)]
  note c8 = T [THEN conjunct2, THEN conjunct2, THEN conjunct2, THEN conjunct2, THEN conjunct2,
               THEN conjunct2, THEN conjunct2, THEN mp, THEN mp,
               OF demo_sonar_report_ok demo_cov_eval(5)]
  show ?thesis
    by (intro conjI demo_cov_eval(1) demo_cov_eval(2) demo_cov_eval(3) c1 c2 c3 c4
          demo_cov_eval(4) c6 c8)
qed


text \<open>
  C2. The quality gate line of the report carries the healthy icon for the status "OK",
  the unhealthy icon for "ERROR" and the warning icon for every other value, a missing
  status being shown as UNKNOWN. When the status that \<open>main\<close> reads after printing is
  "ERROR" the exit code is 1; for every other status, when the report was produced, the
  report is printed and the exit code is 0.
\<close>

theorem gate_status_icon_and_exit:
  "gate_icon (JStr ''OK'') = ICON_OK
   \<and> gate_icon (JStr ''ERROR'') = ICON_FAIL
   \<and> (status \<noteq> JStr ''OK'' \<longrightarrow> status \<noteq> JStr ''ERROR'' \<longrightarrow> gate_icon status = ICON_WARN)
   \<and> (resp_quality_gate env 0 = Response qg \<longrightarrow>
        sonar_report_lines L env project_key cfilter = (Inr lines, errs) \<longrightarrow>
        ''Quality Gate: '' @ gate_icon (dict_get qg ''status'' (JStr ''UNKNOWN'')) @ '' ''
           @ py_str (dict_get qg ''status'' (JStr ''UNKNOWN'')) \<in> set lines)
   \<and> (resp_quality_gate env_err 1 = Response qg_err \<longrightarrow> qg_err ''status'' = Some (JStr ''ERROR'') \<longrightarrow>
        fst (sonar_main L env_err a) = 1)
   \<and> (resp_quality_gate env 1 = Response qg \<longrightarrow> qg ''status'' \<noteq> Some (JStr ''ERROR'') \<longrightarrow>
        sonar_report_lines L env (sproject a) (scomponent a) = (Inr report, errs) \<longrightarrow>
        sonar_main L env a = (0, [join_lines report], errs))"
proof (intro conjI impI)
  show "gate_icon (JStr ''OK'') = ICON_OK" by (simp add: gate_icon_def)
next
  show "gate_icon (JStr ''ERROR'') = ICON_FAIL" by (simp add: gate_icon_def)
next
  assume "status \<noteq> JStr ''OK''" "status \<noteq> JStr ''ERROR''"
  then show "gate_icon status = ICON_WARN" by (simp add: gate_icon_def)
next
  assume "resp_quality_gate env 0 = Response qg"
    "sonar_report_lines L env project_key cfilter = (Inr lines, errs)"
  then show "''Quality Gate: '' @ gate_icon (dict_get qg ''status'' (JStr ''UNKNOWN'')) @ '' ''
           @ py_str (dict_get qg ''status'' (JStr ''UNKNOWN'')) \<in> set lines"
    by (rule gate_line_in_report)
next
  assume "resp_quality_gate env_err 1 = Response qg_err" "qg_err ''status'' = Some (JStr ''ERROR'')"
  then show "fst (sonar_main L env_err a) = 1" by (rule sonar_main_error)
next
  assume "resp_quality_gate env 1 = Response qg" "qg ''status'' \<noteq> Some (JStr ''ERROR'')"
    "sonar_report_lines L env (sproject a) (scomponent a) = (Inr report, errs)"
  then show "sonar_main L env a = (0, [join_lines report], errs)" by (rule sonar_main_no_error)
qed

lemma demo_gate_eval:
  "JStr ''WARN'' \<noteq> JStr ''OK''"
  "JStr ''WARN'' \<noteq> JStr ''ERROR''"
  "resp_quality_gate (demo_sonar_env (Some (JStr ''WARN'')) (demo_coverage ''80.0'') []) 0
     = Response [''status'' \<mapsto> JStr ''WARN'']"
  "resp_quality_gate (demo_sonar_env (Some (JStr ''ERROR'')) (demo_coverage ''80.0'') []) 1
     = Response [''status'' \<mapsto> JStr ''ERROR'']"
  "[''status'' \<mapsto> JStr ''ERROR''] ''status'' = Some (JStr ''ERROR'')"
  "resp_quality_gate (demo_sonar_env (Some (JStr ''WARN'')) (demo_coverage ''80.0'') []) 1
     = Response [''status'' \<mapsto> JStr ''WARN'']"
  "[''status'' \<mapsto> JStr ''WARN''] ''status'' \<noteq> Some (JStr ''ERROR'')"
  by (simp_all add: demo_sonar_env_def)

lemma demo_sonar_report_warn:
  "sonar_report_lines demo_lib (demo_sonar_env (Some (JStr ''WARN'')) (demo_coverage ''80.0'') [])
     ''griswaldbrooks_sonarcloud-cpp-minimal'' None
   = (Inr (demo_sonar_lines (''Quality Gate: '' @ ICON_WARN @ '' WARN'') (''  Coverage: '' @ ICON_OK @ '' 80.0%'')), [])"
  by code_simp

lemma demo_sonar_args_eval:
  "sproject demo_sonar_args = ''griswaldbrooks_sonarcloud-cpp-minimal''" "scomponent demo_sonar_args = None"
  by (simp_all add: demo_sonar_args_def)

theorem gate_status_icon_and_exit_witness:
  "JStr ''WARN'' \<noteq> JStr ''OK'' \<and> JStr ''WARN'' \<noteq> JStr ''ERROR''
   \<and> gate_icon (JStr ''WARN'') = ICON_WARN
   \<and> ''Quality Gate: '' @ gate_icon (dict_get [''status'' \<mapsto> JStr ''WARN''] ''status'' (JStr ''UNKNOWN'')) @ '' ''
        @ py_str (dict_get [''status'' \<mapsto> JStr ''WARN''] ''status'' (JStr ''UNKNOWN''))
      \<in> set (demo_sonar_lines (''Quality Gate: '' @ ICON_WARN @ '' WARN'') (''  Coverage: '' @ ICON_OK @ '' 80.0%''))
   \<and> fst (sonar_main demo_lib (demo_sonar_env (Some (JStr ''ERROR'')) (demo_coverage ''80.0'') []) demo_sonar_args) = 1
   \<and> sonar_main demo_lib (demo_sonar_env (Some (JStr ''WARN'')) (demo_coverage ''80.0'') []) demo_sonar_args
       = (0, [join_lines (demo_sonar_lines (''Quality Gate: '' @ ICON_WARN @ '' WARN'')
                                           (''  Coverage: '' @ ICON_OK @ '' 80.0%''))], [])"
proof -
  note T = gate_status_icon_and_exit
    [where status = "JStr ''WARN''" and L = demo_lib
       and env = "demo_sonar_env (Some (JStr ''WARN'')) (demo_coverage ''80.0'') []"
       and qg = "[''status'' \<mapsto> JStr ''WARN'']"
       and project_key = "''griswaldbrooks_sonarcloud-cpp-minimal''" and cfilter = None
       and lines = "demo_sonar_lines (''Quality Gate: '' @ ICON_WARN @ '' WARN'') (''  Coverage: '' @ ICON_OK @ '' 80.0%'')"
       and report = "demo_sonar_lines (''Quality Gate: '' @ ICON_WARN @ '' WARN'') (''  Coverage: '' @ ICON_OK @ '' 80.0%'')"
       and errs = "[]"
       and env_err = "demo_sonar_env (Some (JStr ''ERROR'')) (demo_coverage ''80.0'') []"
       and qg_err = "[''status'' \<mapsto> JStr ''ERROR'']"
       and a = demo_sonar_args]
  have rep: "sonar_report_lines demo_lib (demo_sonar_env (Some (JStr ''WARN'')) (demo_coverage ''80.0'') [])
               (sproject demo_sonar_args) (scomponent demo_sonar_args)
             = (Inr (demo_sonar_lines (''Quality Gate: '' @ ICON_WARN @ '' WARN'')
                                      (''  Coverage: '' @ ICON_OK @ '' 80.0%'')), [])"
    unfolding demo_sonar_args_eval by (rule demo_sonar_report_warn)
  note c3 = T [THEN conjunct2, THEN conjunct2, THEN conjunct1, THEN mp, THEN mp,
               OF demo_gate_eval(1) demo_gate_eval(2)]
  note c4 = T [THEN conjunct2, THEN conjunct2, THEN conjunct2, THEN conjunct1, THEN mp, THEN mp,
               OF demo_gate_eval(3) demo_sonar_report_warn]
  note c5 = T [THEN conjunct2, THEN conjunct2, THEN conjunct2, THEN conjunct2, THEN conjunct1,
               THEN mp, THEN mp, OF demo_gate_eval(4) demo_gate_eval(5)]
  note c6 = T [THEN conjunct2, THEN conjunct2, THEN conjunct2, THEN conjunct2, THEN conjunct2,
               THEN mp, THEN mp, THEN mp, OF demo_gate_eval(6) demo_gate_eval(7) rep]
  show ?thesis
    by (intro conjI demo_gate_eval(1) demo_gate_eval(2) c3 c4 c5 c6)
qed

lemma files_loop_lines:
  "files_loop L fs (w0, wo0) = Inr (w, wo) \<Longrightarrow>
     w = w0 @ concat (map (\<lambda>f. case file_line L f of Inr (Inl l) \<Rightarrow> [l] | _ \<Rightarrow> []) fs)
   \<and> wo = wo0 @ concat (map (\<lambda>f. case file_line L f of Inr (Inr l) \<Rightarrow> [l] | _ \<Rightarrow> []) fs)"
proof (induction fs arbitrary: w0 wo0)
  case Nil
  then show ?case by simp
next
  case (Cons f fs)
  show ?case
  proof (cases "file_line L f")
    case (Inl e)
    with Cons.prems show ?thesis by simp
  next
    case (Inr x)
    show ?thesis
    proof (cases x)
      case (Inl l)
      with Inr Cons.prems have "files_loop L fs (w0 @ [l], wo0) = Inr (w, wo)" by simp
      from Cons.IH [OF this] Inr Inl show ?thesis by simp
    next
      case r: (Inr l)
      with Inr Cons.prems have "files_loop L fs (w0, wo0 @ [l]) = Inr (w, wo)" by simp
      from Cons.IH [OF this] Inr r show ?thesis by simp
    qed
  qed
qed

lemma files_loop_all_ok:
  "files_loop L fs st = Inr r \<Longrightarrow> \<forall>f \<in> set fs. \<exists>x. file_line L f = Inr x"
proof (induction fs arbitrary: st)
  case Nil
  then show ?case by simp
next
  case (Cons f fs)
  obtain w wo where st: "st = (w, wo)" by (cases st)
  from Cons.prems Cons.IH show ?case
    unfolding st by (auto split: sum.splits)
qed

lemma files_loop_total:
  "\<forall>f \<in> set fs. \<exists>x. file_line L f = Inr x \<Longrightarrow> \<exists>w wo. files_loop L fs st = Inr (w, wo)"
proof (induction fs arbitrary: st)
  case Nil
  then show ?case by (cases st) simp
next
  case (Cons f fs)
  obtain w wo where st: "st = (w, wo)" by (cases st)
  from Cons.prems obtain x where x: "file_line L f = Inr x" by auto
  from Cons.prems have "\<forall>f \<in> set fs. \<exists>x. file_line L f = Inr x" by simp
  from Cons.IH [OF this] x show ?case
    unfolding st by (cases x) simp_all
qed

lemma mset_concat_map:
  "mset (concat (map f xs)) = sum_mset (image_mset (\<lambda>x. mset (f x)) (mset xs))"
  by (induction xs) simp_all

lemma mset_concat_map_perm:
  "mset xs = mset ys \<Longrightarrow> mset (concat (map f xs)) = mset (concat (map f ys))"
  by (simp add: mset_concat_map)

lemma sort_perm: "mset (xs :: string list) = mset ys \<Longrightarrow> sort xs = sort ys"
  by (rule properties_for_sort) simp_all

lemma file_section_perm:
  assumes "mset w' = mset w" and "mset wo' = mset wo"
  shows "file_section w' wo' = file_section w wo"
proof -
  from assms(1) have e1: "(w' = []) = (w = [])" by (metis mset_zero_iff)
  from assms(2) have e2: "(wo' = []) = (wo = [])" by (metis mset_zero_iff)
  from sort_perm [OF assms(1)] sort_perm [OF assms(2)] e1 e2
  show ?thesis by (simp add: file_section_def)
qed

lemma file_section_eq:
  "file_section w wo = sort w @ (if w \<noteq> [] \<and> wo \<noteq> [] then [''''] else []) @ sort wo"
  by (simp add: file_section_def)

lemma detail_lines_files_loop:
  assumes "files_loop L detail ([], []) = Inr (w, wo)" and "detail \<noteq> []"
  shows "detail_lines L detail =
           Inr ([''File Coverage:'', rule_dash] @ file_section w wo
                @ ['''', ''Total Files: '' @ str_nat (length detail),
                   ''With Coverage: '' @ str_nat (length w),
                   ''Without Coverage: '' @ str_nat (length wo)])"
  using assms by (simp add: detail_lines_def)

lemma files_loop_perm:
  assumes "files_loop L detail ([], []) = Inr (w, wo)" and "mset detail' = mset detail"
  shows "\<exists>w' wo'. files_loop L detail' ([], []) = Inr (w', wo')
                  \<and> file_section w' wo' = file_section w wo"
proof -
  from assms(2) have "set detail' = set detail" by (rule mset_eq_setD)
  with files_loop_all_ok [OF assms(1)]
  have "\<forall>f \<in> set detail'. \<exists>x. file_line L f = Inr x" by simp
  from files_loop_total [OF this, of "([], [])"]
  obtain w' wo' where l: "files_loop L detail' ([], []) = Inr (w', wo')" by (elim exE)
  from files_loop_lines [OF l] files_loop_lines [OF assms(1)] mset_concat_map_perm [OF assms(2)]
  have "mset w' = mset w" "mset wo' = mset wo" by simp_all
  then have "file_section w' wo' = file_section w wo" by (rule file_section_perm)
  with l show ?thesis by (intro exI [of _ w'] exI [of _ wo'] conjI)
qed


lemma file_measures_None:
  "(file_measures ms k = None) = (k \<notin> set (map metric ms))"
  by (force simp: file_measures_def map_of_eq_None_iff)

lemma file_line_without:
  assumes "''coverage'' \<notin> set (map metric (cmeasures f))"
  shows "file_line L f =
           Inr (Inr (''  '' @ ICON_FAIL @ '' '' @ (case path f of Some p \<Rightarrow> p | None \<Rightarrow> ''Unknown'')
                     @ '': No coverage data''))"
proof -
  from assms have "file_measures (cmeasures f) ''coverage'' = None"
    by (simp add: file_measures_None)
  then show ?thesis by (simp add: file_line_def Let_def)
qed

lemma file_line_with:
  assumes "''coverage'' \<in> set (map metric (cmeasures f))" and "file_line L f = Inr x"
  shows "\<exists>s cov. file_measures (cmeasures f) ''coverage'' = Some (Some s)
           \<and> float_of_str L s = Some cov
           \<and> x = Inl (''  '' @ coverage_icon cov @ '' ''
                      @ (case path f of Some p \<Rightarrow> p | None \<Rightarrow> ''Unknown'') @ '': ''
                      @ format_1f L cov @ ''% (''
                      @ (case file_measures (cmeasures f) ''lines_to_cover'' of
                           Some v \<Rightarrow> opt_str v | None \<Rightarrow> ''?'') @ '' lines, ''
                      @ (case file_measures (cmeasures f) ''uncovered_lines'' of
                           Some v \<Rightarrow> opt_str v | None \<Rightarrow> ''?'') @ '' uncovered)'')"
proof -
  from assms(1) have "file_measures (cmeasures f) ''coverage'' \<noteq> None"
    by (simp add: file_measures_None)
  then obtain v where v: "file_measures (cmeasures f) ''coverage'' = Some v" by auto
  with assms(2) obtain s where s: "v = Some s"
    by (cases v) (simp_all add: file_line_def Let_def)
  with v assms(2) obtain cov where c: "float_of_str L s = Some cov"
    by (cases "float_of_str L s") (simp_all add: file_line_def Let_def)
  from v s c assms(2) show ?thesis by (simp add: file_line_def Let_def)
qed

lemma files_loop_groups:
  assumes wl: "\<And>f x. hc f \<Longrightarrow> file_line L f = Inr x \<Longrightarrow> \<exists>l. x = Inl l \<and> P l f"
    and nl: "\<And>f. \<not> hc f \<Longrightarrow> file_line L f = Inr (Inr (nline f))"
  shows "files_loop L fs (w0, wo0) = Inr (w, wo) \<Longrightarrow>
           \<exists>w1. w = w0 @ w1 \<and> list_all2 P w1 (filter hc fs)
                \<and> wo = wo0 @ map nline (filter (\<lambda>f. \<not> hc f) fs)"
proof (induction fs arbitrary: w0 wo0)
  case Nil
  then show ?case by simp
next
  case (Cons f fs)
  show ?case
  proof (cases "hc f")
    case False
    from nl [OF False] Cons.prems
    have "files_loop L fs (w0, wo0 @ [nline f]) = Inr (w, wo)" by simp
    from Cons.IH [OF this] obtain w1 where
      "w = w0 @ w1" "list_all2 P w1 (filter hc fs)"
      "wo = (wo0 @ [nline f]) @ map nline (filter (\<lambda>f. \<not> hc f) fs)" by (elim exE conjE)
    with False show ?thesis by (intro exI [of _ w1]) simp
  next
    case True
    from Cons.prems obtain x where x: "file_line L f = Inr x"
      by (cases "file_line L f") simp_all
    from wl [OF True x] obtain l where l: "x = Inl l" "P l f" by (elim exE conjE)
    from x l(1) Cons.prems have "files_loop L fs (w0 @ [l], wo0) = Inr (w, wo)" by simp
    from Cons.IH [OF this] obtain w1 where
      "w = (w0 @ [l]) @ w1" "list_all2 P w1 (filter hc fs)"
      "wo = wo0 @ map nline (filter (\<lambda>f. \<not> hc f) fs)" by (elim exE conjE)
    with True l(2) show ?thesis by (intro exI [of _ "l # w1"]) simp
  qed
qed

lemma files_loop_with:
  assumes "files_loop L detail ([], []) = Inr (w, wo)"
  shows "list_all2
           (\<lambda>l f. \<exists>s cov. file_measures (cmeasures f) ''coverage'' = Some (Some s)
               \<and> float_of_str L s = Some cov
               \<and> l = ''  '' @ coverage_icon cov @ '' ''
                      @ (case path f of Some p \<Rightarrow> p | None \<Rightarrow> ''Unknown'') @ '': ''
                      @ format_1f L cov @ ''% (''
                      @ (case file_measures (cmeasures f) ''lines_to_cover'' of
                           Some v \<Rightarrow> opt_str v | None \<Rightarrow> ''?'') @ '' lines, ''
                      @ (case file_measures (cmeasures f) ''uncovered_lines'' of
                           Some v \<Rightarrow> opt_str v | None \<Rightarrow> ''?'') @ '' uncovered)'')
           w (filter (\<lambda>f. ''coverage'' \<in> set (map metric (cmeasures f))) detail)
       \<and> wo = map (\<lambda>f. ''  '' @ ICON_FAIL @ '' ''
                         @ (case path f of Some p \<Rightarrow> p | None \<Rightarrow> ''Unknown'')
                         @ '': No coverage data'')
                  (filter (\<lambda>f. ''coverage'' \<notin> set (map metric (cmeasures f))) detail)"
proof -
  have "\<exists>w1. w = [] @ w1
          \<and> list_all2
           (\<lambda>l f. \<exists>s cov. file_measures (cmeasures f) ''coverage'' = Some (Some s)
               \<and> float_of_str L s = Some cov
               \<and> l = ''  '' @ coverage_icon cov @ '' ''
                      @ (case path f of Some p \<Rightarrow> p | None \<Rightarrow> ''Unknown'') @ '': ''
                      @ format_1f L cov @ ''% (''
                      @ (case file_measures (cmeasures f) ''lines_to_cover'' of
                           Some v \<Rightarrow> opt_str v | None \<Rightarrow> ''?'') @ '' lines, ''
                      @ (case file_measures (cmeasures f) ''uncovered_lines'' of
                           Some v \<Rightarrow> opt_str v | None \<Rightarrow> ''?'') @ '' uncovered)'')
           w1 (filter (\<lambda>f. ''coverage'' \<in> set (map metric (cmeasures f))) detail)
          \<and> wo = [] @ map (\<lambda>f. ''  '' @ ICON_FAIL @ '' ''
                         @ (case path f of Some p \<Rightarrow> p | None \<Rightarrow> ''Unknown'')
                         @ '': No coverage data'')
                  (filter (\<lambda>f. \<not> ''coverage'' \<in> set (map metric (cmeasures f))) detail)"
  proof (rule files_loop_groups [OF _ _ assms])
    fix f :: component and x
    assume "''coverage'' \<in> set (map metric (cmeasures f))" "file_line L f = Inr x"
    from file_line_with [OF this]
    show "\<exists>l. x = Inl l \<and> (\<exists>s cov. file_measures (cmeasures f) ''coverage'' = Some (Some s)
               \<and> float_of_str L s = Some cov
               \<and> l = ''  '' @ coverage_icon cov @ '' ''
                      @ (case path f of Some p \<Rightarrow> p | None \<Rightarrow> ''Unknown'') @ '': ''
                      @ format_1f L cov @ ''% (''
                      @ (case file_measures (cmeasures f) ''lines_to_cover'' of
                           Some v \<Rightarrow> opt_str v | None \<Rightarrow> ''?'') @ '' lines, ''
                      @ (case file_measures (cmeasures f) ''uncovered_lines'' of
                           Some v \<Rightarrow> opt_str v | None \<Rightarrow> ''?'') @ '' uncovered)'')"
      by (elim exE conjE) simp
  next
    fix f :: component
    assume "\<not> ''coverage'' \<in> set (map metric (cmeasures f))"
    then show "file_line L f =
           Inr (Inr (''  '' @ ICON_FAIL @ '' '' @ (case path f of Some p \<Rightarrow> p | None \<Rightarrow> ''Unknown'')
                     @ '': No coverage data''))"
      by (rule file_line_without)
  qed
  then show ?thesis by simp
qed


text \<open>
  C4. The file section shows the lines of the files whose measures include the metric
  \<open>coverage\<close>, then the lines of the files whose measures do not include it, with one
  blank line between the two groups when both are non-empty. The lines of the first
  group show the tier icon of the coverage value, the path, the percentage and the line
  counts; those of the second group show the path and "No coverage data". Each group is
  the list of its lines put in ascending order of the whole line, and the section is the
  same for every order in which the files are fetched.
\<close>

theorem file_section_sorted_by_line:
  assumes "files_loop L detail ([], []) = Inr (w, wo)"
  shows "list_all2
           (\<lambda>l f. \<exists>s cov. file_measures (cmeasures f) ''coverage'' = Some (Some s)
               \<and> float_of_str L s = Some cov
               \<and> l = ''  '' @ coverage_icon cov @ '' ''
                      @ (case path f of Some p \<Rightarrow> p | None \<Rightarrow> ''Unknown'') @ '': ''
                      @ format_1f L cov @ ''% (''
                      @ (case file_measures (cmeasures f) ''lines_to_cover'' of
                           Some v \<Rightarrow> opt_str v | None \<Rightarrow> ''?'') @ '' lines, ''
                      @ (case file_measures (cmeasures f) ''uncovered_lines'' of
                           Some v \<Rightarrow> opt_str v | None \<Rightarrow> ''?'') @ '' uncovered)'')
           w (filter (\<lambda>f. ''coverage'' \<in> set (map metric (cmeasures f))) detail)
       \<and> wo = map (\<lambda>f. ''  '' @ ICON_FAIL @ '' ''
                         @ (case path f of Some p \<Rightarrow> p | None \<Rightarrow> ''Unknown'')
                         @ '': No coverage data'')
                  (filter (\<lambda>f. ''coverage'' \<notin> set (map metric (cmeasures f))) detail)
       \<and> file_section w wo = sort w @ (if w \<noteq> [] \<and> wo \<noteq> [] then [''''] else []) @ sort wo
       \<and> sorted (sort w) \<and> mset (sort w) = mset w
       \<and> sorted (sort wo) \<and> mset (sort wo) = mset wo
       \<and> (detail \<noteq> [] \<longrightarrow>
            detail_lines L detail =
              Inr ([''File Coverage:'', rule_dash] @ file_section w wo
                   @ ['''', ''Total Files: '' @ str_nat (length detail),
                      ''With Coverage: '' @ str_nat (length w),
                      ''Without Coverage: '' @ str_nat (length wo)]))
       \<and> (\<forall>detail'. mset detail' = mset detail \<longrightarrow>
            (\<exists>w' wo'. files_loop L detail' ([], []) = Inr (w', wo')
                      \<and> file_section w' wo' = file_section w wo))"
proof (intro conjI impI allI)
  from files_loop_with [OF assms]
  show "list_all2
           (\<lambda>l f. \<exists>s cov. file_measures (cmeasures f) ''coverage'' = Some (Some s)
               \<and> float_of_str L s = Some cov
               \<and> l = ''  '' @ coverage_icon cov @ '' ''
                      @ (case path f of Some p \<Rightarrow> p | None \<Rightarrow> ''Unknown'') @ '': ''
                      @ format_1f L cov @ ''% (''
                      @ (case file_measures (cmeasures f) ''lines_to_cover'' of
                           Some v \<Rightarrow> opt_str v | None \<Rightarrow> ''?'') @ '' lines, ''
                      @ (case file_measures (cmeasures f) ''uncovered_lines'' of
                           Some v \<Rightarrow> opt_str v | None \<Rightarrow> ''?'') @ '' uncovered)'')
           w (filter (\<lambda>f. ''coverage'' \<in> set (map metric (cmeasures f))) detail)"
    by (rule conjunct1)
next
  from files_loop_with [OF assms]
  show "wo = map (\<lambda>f. ''  '' @ ICON_FAIL @ '' ''
                         @ (case path f of Some p \<Rightarrow> p | None \<Rightarrow> ''Unknown'')
                         @ '': No coverage data'')
                  (filter (\<lambda>f. ''coverage'' \<notin> set (map metric (cmeasures f))) detail)"
    by (rule conjunct2)
next
  show "file_section w wo = sort w @ (if w \<noteq> [] \<and> wo \<noteq> [] then [''''] else []) @ sort wo"
    by (rule file_section_eq)
next
  show "sorted (sort w)" "mset (sort w) = mset w" "sorted (sort wo)" "mset (sort wo) = mset wo"
    by simp_all
next
  assume "detail \<noteq> []"
  with assms show "detail_lines L detail =
              Inr ([''File Coverage:'', rule_dash] @ file_section w wo
                   @ ['''', ''Total Files: '' @ str_nat (length detail),
                      ''With Coverage: '' @ str_nat (length w),
                      ''Without Coverage: '' @ str_nat (length wo)])"
    by (rule detail_lines_files_loop)
next
  fix detail'
  assume "mset detail' = mset detail"
  with assms show "\<exists>w' wo'. files_loop L detail' ([], []) = Inr (w', wo')
                      \<and> file_section w' wo' = file_section w wo"
    by (rule files_loop_perm)
qed

lemma demo_files_eval:
  "files_loop demo_lib demo_files ([], []) = Inr (demo_files_with, demo_files_without)"
  "demo_files \<noteq> []"
  by (code_simp, code_simp)

lemma demo_files_rev: "mset (rev demo_files) = mset demo_files"
  by simp

theorem file_section_sorted_by_line_witness:
  "files_loop demo_lib demo_files ([], []) = Inr (demo_files_with, demo_files_without)
   \<and> demo_files_without
       = map (\<lambda>f. ''  '' @ ICON_FAIL @ '' ''
                   @ (case path f of Some p \<Rightarrow> p | None \<Rightarrow> ''Unknown'')
                   @ '': No coverage data'')
             (filter (\<lambda>f. ''coverage'' \<notin> set (map metric (cmeasures f))) demo_files)
   \<and> file_section demo_files_with demo_files_without
       = sort demo_files_with
         @ (if demo_files_with \<noteq> [] \<and> demo_files_without \<noteq> [] then [''''] else [])
         @ sort demo_files_without
   \<and> demo_files \<noteq> []
   \<and> detail_lines demo_lib demo_files =
        Inr ([''File Coverage:'', rule_dash] @ file_section demo_files_with demo_files_without
             @ ['''', ''Total Files: '' @ str_nat (length demo_files),
                ''With Coverage: '' @ str_nat (length demo_files_with),
                ''Without Coverage: '' @ str_nat (length demo_files_without)])
   \<and> mset (rev demo_files) = mset demo_files
   \<and> (\<exists>w' wo'. files_loop demo_lib (rev demo_files) ([], []) = Inr (w', wo')
                \<and> file_section w' wo' = file_section demo_files_with demo_files_without)"
proof -
  note T = file_section_sorted_by_line [OF demo_files_eval(1)]
  note c2 = T [THEN conjunct2, THEN conjunct1]
  note c3 = T [THEN conjunct2, THEN conjunct2, THEN conjunct1]
  note c8 = T [THEN conjunct2, THEN conjunct2, THEN conjunct2, THEN conjunct2, THEN conjunct2,
               THEN conjunct2, THEN conjunct2, THEN conjunct1, THEN mp, OF demo_files_eval(2)]
  note c9 = T [THEN conjunct2, THEN conjunct2, THEN conjunct2, THEN conjunct2, THEN conjunct2,
               THEN conjunct2, THEN conjunct2, THEN conjunct2, THEN spec, THEN mp,
               OF demo_files_rev]
  show ?thesis
    by (intro conjI demo_files_eval(1) c2 c3 demo_files_eval(2) c8 demo_files_rev c9)
qed

text \<open>
  Five files fetched in the order a.cpp, b.cpp, README, README.md, c.cpp: the section
  shows c.cpp, b.cpp, a.cpp, and README.md before README, although the paths compare
  the other way round. Two files of one tier, src/main and src/main.cpp, are shown with
  src/main.cpp first.
\<close>

theorem file_section_not_by_path_counterexample:
  "detail_lines demo_lib demo_files =
     Inr [''File Coverage:'', rule_dash,
          ''  '' @ ICON_WARN @ '' src/c.cpp: 79.9% (10 lines, 2 uncovered)'',
          ''  '' @ ICON_OK @ '' src/b.cpp: 80.0% (10 lines, 2 uncovered)'',
          ''  '' @ ICON_FAIL @ '' src/a.cpp: 59.9% (10 lines, 2 uncovered)'',
          '''',
          ''  '' @ ICON_FAIL @ '' README.md: No coverage data'',
          ''  '' @ ICON_FAIL @ '' README: No coverage data'',
          '''', ''Total Files: 5'', ''With Coverage: 3'', ''Without Coverage: 2'']
   \<and> map path demo_files = [Some ''src/a.cpp'', Some ''src/b.cpp'', Some ''README'',
                              Some ''README.md'', Some ''src/c.cpp'']
   \<and> ''src/a.cpp'' < ''src/b.cpp'' \<and> ''src/b.cpp'' < ''src/c.cpp'' \<and> ''README'' < ''README.md''
   \<and> detail_lines demo_lib [demo_file ''src/main'' (Some ''59.9''),
                               demo_file ''src/main.cpp'' (Some ''59.9'')] =
       Inr [''File Coverage:'', rule_dash,
            ''  '' @ ICON_FAIL @ '' src/main.cpp: 59.9% (10 lines, 2 uncovered)'',
            ''  '' @ ICON_FAIL @ '' src/main: 59.9% (10 lines, 2 uncovered)'',
            '''', ''Total Files: 2'', ''With Coverage: 2'', ''Without Coverage: 0'']
   \<and> ''src/main'' < ''src/main.cpp''"
  by code_simp

end
